theory Spec2Isabelle
  imports Main
begin

section \<open>JavaScript strings and numbers\<close>

text \<open>
  A JavaScript string is a sequence of UTF-16 code units; a code unit is modelled as a
  natural number, so that the degree glyph (U+00B0, one code unit, 176) and the Unicode
  white space that \<^verbatim>\<open>trim\<close> and \<^verbatim>\<open>parseInt\<close> skip are all expressible.
  \<open>str\<close> writes an ASCII literal.
\<close>

type_synonym jsstring = "nat list"

definition str :: "string \<Rightarrow> jsstring" where
  "str s = map of_char s"

text \<open>White space and line terminators of ECMAScript (the set stripped by \<^verbatim>\<open>trim\<close>).\<close>

definition isWhiteSpace :: "nat \<Rightarrow> bool" where
  "isWhiteSpace c \<longleftrightarrow>
     c = 9 \<or> c = 10 \<or> c = 11 \<or> c = 12 \<or> c = 13 \<or> c = 32 \<or> c = 160 \<or> c = 5760 \<or>
     (8192 \<le> c \<and> c \<le> 8202) \<or> c = 8232 \<or> c = 8233 \<or> c = 8239 \<or> c = 8287 \<or>
     c = 12288 \<or> c = 65279"

definition trim :: "jsstring \<Rightarrow> jsstring" where
  "trim s = rev (dropWhile isWhiteSpace (rev (dropWhile isWhiteSpace s)))"

text \<open>
  \<^verbatim>\<open>s.replace(pat, rep)\<close> with a string pattern: the first occurrence of \<open>pat\<close> is
  replaced, the rest of the string is kept (the replacements used by the program contain
  no \<^verbatim>\<open>$\<close> pattern).
\<close>

fun replace :: "jsstring \<Rightarrow> jsstring \<Rightarrow> jsstring \<Rightarrow> jsstring" where
  "replace pat rep [] = (if pat = [] then rep else [])"
| "replace pat rep (c # cs) =
     (if take (length pat) (c # cs) = pat then rep @ drop (length pat) (c # cs)
      else c # replace pat rep cs)"

text \<open>
  A JavaScript number as far as the program produces one. \<^verbatim>\<open>parseInt\<close> returns NaN, or
  the double nearest to the integer it read, with the sign it read: \<open>Num n\<close> is the
  finite double whose value is the integer \<open>n\<close> (positive zero for \<open>Num 0\<close>), \<open>NegZero\<close> is
  what \<^verbatim>\<open>"-0"\<close> gives, and the infinities are what digit runs beyond the range of doubles
  give.
\<close>

datatype jsnum = NaN | Num int | NegZero | PosInfinity | NegInfinity

text \<open>
  The double nearest to a natural number. Below \<open>2^53\<close> every integer is a double. A
  larger number of \<open>b\<close> bits lies between doubles that are \<open>2^(b - 53)\<close> apart; it is
  rounded to the nearer of the two, and to the one with the even significand when it is
  halfway. What reaches \<open>2^1024\<close> is infinite.
\<close>

fun bitLength :: "nat \<Rightarrow> nat" where
  "bitLength n = (if n = 0 then 0 else Suc (bitLength (n div 2)))"

definition roundToDouble :: "nat \<Rightarrow> nat" where
  "roundToDouble n =
     (if n < 2 ^ 53 then n
      else (let ulp = 2 ^ (bitLength n - 53); q = n div ulp; r = n mod ulp
            in (if 2 * r < ulp \<or> (2 * r = ulp \<and> even q) then q else q + 1) * ulp))"

text \<open>The number for a sign and the integer read after it.\<close>

definition toNumber :: "bool \<Rightarrow> nat \<Rightarrow> jsnum" where
  "toNumber negative n =
     (if n = 0 then (if negative then NegZero else Num 0)
      else if 2 ^ 1024 \<le> roundToDouble n then (if negative then NegInfinity else PosInfinity)
      else Num (if negative then - int (roundToDouble n) else int (roundToDouble n)))"

definition isDigit :: "nat \<Rightarrow> bool" where
  "isDigit c \<longleftrightarrow> 48 \<le> c \<and> c \<le> 57"

definition digitsValue :: "jsstring \<Rightarrow> nat" where
  "digitsValue ds = foldl (\<lambda>acc c. 10 * acc + (c - 48)) 0 ds"

text \<open>
  \<^verbatim>\<open>parseInt(s, 10)\<close>: skip leading white space, read an optional sign, then the
  longest prefix of decimal digits; NaN when that prefix is empty. Whatever follows the
  digits is ignored. All digits count for the value (the standard lets an implementation
  neglect those after the twentieth; Node does not).
\<close>

definition parseInt10 :: "jsstring \<Rightarrow> jsnum" where
  "parseInt10 s =
     (let S = dropWhile isWhiteSpace s;
          negative = (S \<noteq> [] \<and> hd S = 45);
          S' = (if S \<noteq> [] \<and> (hd S = 43 \<or> hd S = 45) then tl S else S);
          Z = takeWhile isDigit S'
      in if Z = [] then NaN else toNumber negative (digitsValue Z))"

text \<open>The degree glyph, U+00B0.\<close>

definition degree :: jsstring where
  "degree = [176]"

text \<open>
  \<^verbatim>\<open>const normalizeTemperature = (temp: string): number | null =>
      temp.length > 0 ? parseInt(temp.replace('\<degree>', ''), 10) : null;\<close>
  \<open>None\<close> is \<^verbatim>\<open>null\<close>.
\<close>

definition normalizeTemperature :: "jsstring \<Rightarrow> jsnum option" where
  "normalizeTemperature temp =
     (if length temp > 0 then Some (parseInt10 (replace degree [] temp)) else None)"

section \<open>The parsed page\<close>

text \<open>
  The document that \<^verbatim>\<open>cheerio.load\<close> builds: text nodes, comments and elements with a
  tag name, attributes and children (a doctype or processing instruction is, for what
  the program does, a comment: no selector matches it and it has no text). A forest is
  a list of sibling nodes; the document is the forest of its top-level nodes. A node is
  addressed by its path, the child indices from the top of its forest.
\<close>

datatype node =
    Text jsstring
  | Comment jsstring
  | Elem string "(string \<times> jsstring) list" "node list"

type_synonym path = "nat list"

fun isElem :: "node \<Rightarrow> bool" where
  "isElem (Elem t a ks) = True"
| "isElem n = False"

text \<open>The text of a node: the data of all text nodes below it, comments excluded.\<close>

fun textContent :: "node \<Rightarrow> jsstring" where
  "textContent (Text s) = s"
| "textContent (Comment s) = []"
| "textContent (Elem t a ks) = concat (map textContent ks)"

fun node_at :: "node list \<Rightarrow> path \<Rightarrow> node option" where
  "node_at ns [] = None"
| "node_at ns [i] = (if i < length ns then Some (ns ! i) else None)"
| "node_at ns (i # j # p) =
     (if i < length ns
      then (case ns ! i of Elem t a ks \<Rightarrow> node_at ks (j # p) | _ \<Rightarrow> None)
      else None)"

section \<open>Selectors\<close>

text \<open>
  The selectors of the program use attribute tests (\<^verbatim>\<open>=\<close>, \<^verbatim>\<open>^=\<close>, \<^verbatim>\<open>*=\<close>), tag names,
  \<^verbatim>\<open>:nth-child(k)\<close> and the descendant and child combinators. A selector is kept in
  parsed form; \<open>Descendant s c\<close> is \<^verbatim>\<open>s c\<close> and \<open>Child s c\<close> is \<^verbatim>\<open>s > c\<close>.
\<close>

datatype attr_op = Equals | StartsWith | Contains

datatype simple = Tag string | Attr string attr_op jsstring | NthChild nat

type_synonym compound = "simple list"

datatype selector =
    Compound compound
  | Descendant selector compound
  | Child selector compound

text \<open>
  What a compound selector can see of an element: tag, attributes, and the element's
  position among the element children of its parent (from 1).
\<close>

type_synonym einfo = "string \<times> (string \<times> jsstring) list \<times> nat"

fun isInfix :: "jsstring \<Rightarrow> jsstring \<Rightarrow> bool" where
  "isInfix v [] = (v = [])"
| "isInfix v (c # cs) = (take (length v) (c # cs) = v \<or> isInfix v cs)"

fun smatch :: "simple \<Rightarrow> einfo \<Rightarrow> bool" where
  "smatch (Tag t) (tg, at, n) = (tg = t)"
| "smatch (Attr a opr v) (tg, at, n) =
     (case map_of at a of
        None \<Rightarrow> False
      | Some w \<Rightarrow>
          (case opr of
             Equals \<Rightarrow> w = v
           | StartsWith \<Rightarrow> v \<noteq> [] \<and> take (length v) w = v
           | Contains \<Rightarrow> v \<noteq> [] \<and> isInfix v w))"
| "smatch (NthChild k) (tg, at, n) = (n = k)"

definition cmatch :: "compound \<Rightarrow> einfo \<Rightarrow> bool" where
  "cmatch c e = list_all (\<lambda>s. smatch s e) c"

text \<open>
  \<open>matches s e ancs\<close>: element \<open>e\<close>, whose ancestors are \<open>ancs\<close> (parent first), matches
  the selector. The combinators look at the parent, or at any ancestor.
\<close>

fun matches :: "selector \<Rightarrow> einfo \<Rightarrow> einfo list \<Rightarrow> bool"
  and anyAncestor :: "selector \<Rightarrow> einfo list \<Rightarrow> bool" where
  "matches (Compound c) e ancs = cmatch c e"
| "matches (Child s c) e ancs =
     (cmatch c e \<and> (case ancs of [] \<Rightarrow> False | p # ps \<Rightarrow> matches s p ps))"
| "matches (Descendant s c) e ancs = (cmatch c e \<and> anyAncestor s ancs)"
| "anyAncestor s [] = False"
| "anyAncestor s (p # ps) = (matches s p ps \<or> anyAncestor s ps)"

text \<open>
  All elements of a forest in document order, each with its path, what selectors see of
  it, and its ancestors (parent first) with their paths. \<open>walk ancs pp i k ns\<close> visits
  the siblings \<open>ns\<close>, the first of which is child number \<open>i\<close> of the node at \<open>pp\<close> and
  has \<open>k\<close> elements before it.
\<close>

type_synonym loc = "path \<times> einfo \<times> (path \<times> einfo) list"

fun walk :: "(path \<times> einfo) list \<Rightarrow> path \<Rightarrow> nat \<Rightarrow> nat \<Rightarrow> node list \<Rightarrow> loc list" where
  "walk ancs pp i k [] = []"
| "walk ancs pp i k (Text s # ns) = walk ancs pp (Suc i) k ns"
| "walk ancs pp i k (Comment s # ns) = walk ancs pp (Suc i) k ns"
| "walk ancs pp i k (Elem t a ks # ns) =
     (pp @ [i], (t, a, Suc k), ancs)
       # walk ((pp @ [i], (t, a, Suc k)) # ancs) (pp @ [i]) 0 0 ks
       @ walk ancs pp (Suc i) (Suc k) ns"

definition allElems :: "node list \<Rightarrow> loc list" where
  "allElems f = walk [] [] 0 0 f"

section \<open>The cheerio instance\<close>

text \<open>
  The program holds one document and mutates nodes only through \<^verbatim>\<open>remove\<close>, on the
  copies that \<^verbatim>\<open>clone\<close> made. The state keeps the document, the detached forests
  created by \<^verbatim>\<open>clone\<close> (one forest for each call, its top-level nodes being the
  copies), and the warnings written to \<^verbatim>\<open>console.error\<close>: a warning
  \<^verbatim>\<open>Warning: Selector not found: ...\<close> is recorded as the selector it names.
  A selection (a cheerio object) is a list of references to elements: the forest they
  live in and their paths. A path keeps naming the same node as long as nothing is
  removed before or above that node; the program removes nodes only below the copies it
  has just made.
\<close>

datatype root = Doc | Frag nat

type_synonym selection = "root \<times> path list"

record state =
  document :: "node list"
  fragments :: "node list list"
  diags :: "selector list"

definition forest :: "state \<Rightarrow> root \<Rightarrow> node list" where
  "forest st r =
     (case r of
        Doc \<Rightarrow> document st
      | Frag i \<Rightarrow> (if i < length (fragments st) then fragments st ! i else []))"

definition set_forest :: "root \<Rightarrow> node list \<Rightarrow> state \<Rightarrow> state" where
  "set_forest r f st =
     (case r of
        Doc \<Rightarrow> st\<lparr>document := f\<rparr>
      | Frag i \<Rightarrow> st\<lparr>fragments := (fragments st)[i := f]\<rparr>)"

definition warn :: "selector \<Rightarrow> state \<Rightarrow> state" where
  "warn selector st = st\<lparr>diags := diags st @ [selector]\<rparr>"

text \<open>\<^verbatim>\<open>$(selector)\<close>: every element of the document that matches, in document order.\<close>

definition selectF :: "selector \<Rightarrow> node list \<Rightarrow> path list" where
  "selectF sel f =
     map fst (filter (\<lambda>(p, e, ancs). matches sel e (map snd ancs)) (allElems f))"

definition select_root :: "selector \<Rightarrow> state \<Rightarrow> selection" where
  "select_root sel st = (Doc, selectF sel (document st))"

text \<open>
  \<^verbatim>\<open>context.find(selector)\<close>: the elements below a context element that match, in
  document order, each once. The selector is read relative to the context: when every
  context element has an element as its parent, the ancestors that the selector may
  use end at the outermost context element above the candidate; otherwise all
  ancestors count.
\<close>

definition hasContext :: "path list \<Rightarrow> bool" where
  "hasContext ctx = list_all (\<lambda>p. 2 \<le> length p) ctx"

definition scopeAncs :: "path list \<Rightarrow> (path \<times> einfo) list \<Rightarrow> (path \<times> einfo) list" where
  "scopeAncs ctx ancs = rev (dropWhile (\<lambda>(p, e). p \<notin> set ctx) (rev ancs))"

definition findF :: "selector \<Rightarrow> path list \<Rightarrow> node list \<Rightarrow> path list" where
  "findF sel ctx f =
     map fst (filter
       (\<lambda>(p, e, ancs). scopeAncs ctx ancs \<noteq> [] \<and>
          matches sel e (map snd (if hasContext ctx then scopeAncs ctx ancs else ancs)))
       (allElems f))"

definition find_sel :: "selector \<Rightarrow> selection \<Rightarrow> state \<Rightarrow> selection" where
  "find_sel sel ctx st = (case ctx of (r, ps) \<Rightarrow> (r, findF sel ps (forest st r)))"

text \<open>\<^verbatim>\<open>$(selector, context)\<close> is \<^verbatim>\<open>context.find(selector)\<close> when a context is given.\<close>

definition query :: "selector \<Rightarrow> selection option \<Rightarrow> state \<Rightarrow> selection" where
  "query sel context st =
     (case context of None \<Rightarrow> select_root sel st | Some ctx \<Rightarrow> find_sel sel ctx st)"

text \<open>\<^verbatim>\<open>.is(selector)\<close>: some element of the selection matches the selector.\<close>

definition isF :: "selector \<Rightarrow> path list \<Rightarrow> node list \<Rightarrow> bool" where
  "isF sel ps f =
     list_ex (\<lambda>(p, e, ancs). p \<in> set ps \<and> matches sel e (map snd ancs)) (allElems f)"

definition is_sel :: "selector \<Rightarrow> selection \<Rightarrow> state \<Rightarrow> bool" where
  "is_sel sel s st = (case s of (r, ps) \<Rightarrow> isF sel ps (forest st r))"

text \<open>\<^verbatim>\<open>.text()\<close>: the texts of the selected elements, concatenated.\<close>

definition nodesF :: "path list \<Rightarrow> node list \<Rightarrow> node list" where
  "nodesF ps f = concat (map (\<lambda>p. case node_at f p of Some n \<Rightarrow> [n] | None \<Rightarrow> []) ps)"

definition nodes_of :: "selection \<Rightarrow> state \<Rightarrow> node list" where
  "nodes_of s st = (case s of (r, ps) \<Rightarrow> nodesF ps (forest st r))"

definition text_sel :: "selection \<Rightarrow> state \<Rightarrow> jsstring" where
  "text_sel s st = concat (map textContent (nodes_of s st))"

definition first_sel :: "selection \<Rightarrow> selection" where
  "first_sel s = (case s of (r, ps) \<Rightarrow> (r, take 1 ps))"

definition last_sel :: "selection \<Rightarrow> selection" where
  "last_sel s = (case s of (r, ps) \<Rightarrow> (r, if ps = [] then [] else [last ps]))"

text \<open>\<^verbatim>\<open>.slice(a)\<close> and \<^verbatim>\<open>.slice(a, b)\<close> for indices that are not negative.\<close>

definition slice_from :: "nat \<Rightarrow> selection \<Rightarrow> selection" where
  "slice_from a s = (case s of (r, ps) \<Rightarrow> (r, drop a ps))"

definition slice_sel :: "nat \<Rightarrow> nat \<Rightarrow> selection \<Rightarrow> selection" where
  "slice_sel a b s = (case s of (r, ps) \<Rightarrow> (r, drop a (take b ps)))"

text \<open>
  \<^verbatim>\<open>.clone()\<close>: deep copies of the selected elements, detached from the document. They
  become the top-level nodes of a new forest.
\<close>

definition clone_sel :: "selection \<Rightarrow> state \<Rightarrow> selection \<times> state" where
  "clone_sel s st =
     (let copies = nodes_of s st
      in ((Frag (length (fragments st)), map (\<lambda>i. [i]) [0..<length copies]),
          st\<lparr>fragments := fragments st @ [copies]\<rparr>))"

text \<open>\<^verbatim>\<open>.children()\<close>: the element children of the selected elements.\<close>

definition elementChildren :: "node list \<Rightarrow> path \<Rightarrow> path list" where
  "elementChildren f p =
     (case node_at f p of
        Some (Elem t a ks) \<Rightarrow> map (\<lambda>i. p @ [i]) (filter (\<lambda>i. isElem (ks ! i)) [0..<length ks])
      | _ \<Rightarrow> [])"

definition childrenF :: "path list \<Rightarrow> node list \<Rightarrow> path list" where
  "childrenF ps f = concat (map (elementChildren f) ps)"

definition children_sel :: "selection \<Rightarrow> state \<Rightarrow> selection" where
  "children_sel s st = (case s of (r, ps) \<Rightarrow> (r, childrenF ps (forest st r)))"

text \<open>
  \<^verbatim>\<open>.remove()\<close>: every selected node leaves its parent, with its subtree. \<open>prune ps i ns\<close>
  drops from the siblings \<open>ns\<close> (the first of which has index \<open>i\<close>) the nodes whose path
  is in \<open>ps\<close>. A detached copy has no parent to leave.
\<close>

definition subpaths :: "nat \<Rightarrow> path list \<Rightarrow> path list" where
  "subpaths i ps = map tl (filter (\<lambda>p. p \<noteq> [] \<and> hd p = i) ps)"

fun prune :: "path list \<Rightarrow> nat \<Rightarrow> node list \<Rightarrow> node list" where
  "prune ps i [] = []"
| "prune ps i (Elem t a ks # ns) =
     (if [i] \<in> set ps then prune ps (Suc i) ns
      else Elem t a (prune (subpaths i ps) 0 ks) # prune ps (Suc i) ns)"
| "prune ps i (n # ns) =
     (if [i] \<in> set ps then prune ps (Suc i) ns else n # prune ps (Suc i) ns)"

definition remove_sel :: "selection \<Rightarrow> state \<Rightarrow> state" where
  "remove_sel s st =
     (case s of (r, ps) \<Rightarrow>
        (case r of
           Doc \<Rightarrow> set_forest r (prune ps 0 (forest st r)) st
         | Frag i \<Rightarrow>
             set_forest r (prune (filter (\<lambda>p. 2 \<le> length p) ps) 0 (forest st r)) st))"

section \<open>The selector catalogue\<close>

text \<open>The entries of \<^verbatim>\<open>SELECTORS\<close>, parsed.\<close>

definition attr_is :: "string \<Rightarrow> string \<Rightarrow> selector" where
  "attr_is a v = Compound [Attr a Equals (str v)]"

definition class_has :: "string \<Rightarrow> selector" where
  "class_has v = Compound [Attr ''class'' Contains (str v)]"

definition SELECTORS_followingDays :: selector where
  "SELECTORS_followingDays =
     Child (Descendant (attr_is ''data-testid'' ''DailyWeatherModule'')
                       [Attr ''data-testid'' Equals (str ''WeatherTable'')])
           [Tag ''li'']"

definition SELECTORS_today :: selector where
  "SELECTORS_today = Compound [Attr ''id'' StartsWith (str ''WxuTodayWeatherCard-main-'')]"

definition SELECTORS_todayDetails :: selector where
  "SELECTORS_todayDetails = attr_is ''data-testid'' ''TodaysDetailsModule''"

definition SELECTORS_currentTemp :: selector where
  "SELECTORS_currentTemp = class_has ''CurrentConditions--tempValue--''"

definition SELECTORS_currentCondition :: selector where
  "SELECTORS_currentCondition = class_has ''CurrentConditions--phraseValue''"

definition SELECTORS_chanceOfRain :: selector where
  "SELECTORS_chanceOfRain = class_has ''Column--precip--''"

definition SELECTORS_condition :: selector where
  "SELECTORS_condition = class_has ''Column--iconPhrase--''"

definition SELECTORS_temperature :: selector where
  "SELECTORS_temperature = attr_is ''data-testid'' ''TemperatureValue''"

definition SELECTORS_wind :: selector where
  "SELECTORS_wind = attr_is ''data-testid'' ''Wind''"

definition SELECTORS_percentage :: selector where
  "SELECTORS_percentage = attr_is ''data-testid'' ''PercentageValue''"

definition SELECTORS_uvIndex :: selector where
  "SELECTORS_uvIndex = attr_is ''data-testid'' ''UVIndexValue''"

definition SELECTORS_periodOfDay :: selector where
  "SELECTORS_periodOfDay = class_has ''Column--active--''"

definition SELECTORS_time :: selector where
  "SELECTORS_time = class_has ''CurrentConditions--timestamp--''"

text \<open>\<^verbatim>\<open>'h3 span'\<close>, the date label of an outlook row.\<close>

definition h3_span :: selector where
  "h3_span = Descendant (Compound [Tag ''h3'']) [Tag ''span'']"

text \<open>\<^verbatim>\<open>`${todayCard} ul > li:nth-child(${segment})`\<close>\<close>

definition segmentSelector :: "nat \<Rightarrow> selector" where
  "segmentSelector segment =
     Child (Descendant SELECTORS_today [Tag ''ul'']) [Tag ''li'', NthChild segment]"

section \<open>The extraction helpers of fetchWeather\<close>

text \<open>
  \<^verbatim>\<open>const getText = (selector, context?) => {
      const element = $(selector, context);
      if (element.length > 0) { const text = element.text().trim(); return text || null; }
      console.error(`Warning: Selector not found: ${selector}`);
      return null; };\<close>
\<close>

definition getText :: "selector \<Rightarrow> selection option \<Rightarrow> state \<Rightarrow> jsstring option \<times> state" where
  "getText selector context st =
     (let element = query selector context st
      in if length (snd element) > 0
         then (let text = trim (text_sel element st)
               in (if text = [] then None else Some text, st))
         else (None, warn selector st))"

text \<open>
  \<^verbatim>\<open>const getPercentage = (selector, context?) => {
      const $el = $(selector, context);
      if (!$el.length) { console.error(`Warning: Selector not found: ${selector}`); return null; }
      return $el.clone().children().remove().end().text().trim(); };\<close>
  \<^verbatim>\<open>remove\<close> returns the set of children it was called on, and \<^verbatim>\<open>end\<close> goes back
  from there to the set of copies, whose text is read.
\<close>

definition getPercentage :: "selector \<Rightarrow> selection option \<Rightarrow> state \<Rightarrow> jsstring option \<times> state" where
  "getPercentage selector context st =
     (let el = query selector context st
      in if length (snd el) = 0 then (None, warn selector st)
         else (let (copies, st1) = clone_sel el st;
                   st2 = remove_sel (children_sel copies st1) st1
               in (Some (trim (text_sel copies st2)), st2)))"

text \<open>
  \<^verbatim>\<open>const getTemp = (selector, context?) => {
      const text = getText(selector, context);
      return normalizeTemperature(text || ""); };\<close>
\<close>

definition getTemp :: "selector \<Rightarrow> selection option \<Rightarrow> state \<Rightarrow> jsnum option \<times> state" where
  "getTemp selector context st =
     (let (text, st1) = getText selector context st
      in (normalizeTemperature (case text of None \<Rightarrow> [] | Some t \<Rightarrow> t), st1))"

section \<open>fetchWeather\<close>

text \<open>The interfaces \<^verbatim>\<open>DayRoundWeather\<close> and \<^verbatim>\<open>DayWeather\<close>; \<open>None\<close> is \<^verbatim>\<open>null\<close>.\<close>

record DayRoundWeather =
  date :: "jsstring option"
  condition :: "jsstring option"
  chanceOfRain :: "jsstring option"
  tempLow :: "jsnum option"
  tempHigh :: "jsnum option"

text \<open>What \<^verbatim>\<open>getSegmentData\<close> returns for one quarter of the day.\<close>

record SegmentData =
  temp :: "jsnum option"
  condition :: "jsstring option"
  rain :: "jsstring option"
  active :: bool

record DayWeather =
  tempHigh :: "jsnum option"
  tempLow :: "jsnum option"
  currentTime :: "jsstring option"
  currentTemp :: "jsnum option"
  currentFeltTemp :: "jsnum option"
  currentCondition :: "jsstring option"
  currentHumidity :: "jsstring option"
  currentUvIndex :: "jsstring option"
  currentWind :: "jsstring option"
  morningChanceOfRain :: "jsstring option"
  morningCondition :: "jsstring option"
  morningTemperature :: "jsnum option"
  afternoonChanceOfRain :: "jsstring option"
  afternoonCondition :: "jsstring option"
  afternoonTemperature :: "jsnum option"
  eveningChanceOfRain :: "jsstring option"
  eveningCondition :: "jsstring option"
  eveningTemperature :: "jsnum option"
  overnightChanceOfRain :: "jsstring option"
  overnightCondition :: "jsstring option"
  overnightTemperature :: "jsnum option"
  currentDayStage :: "jsstring option"

record Forecast =
  today :: DayWeather
  "next" :: "DayRoundWeather list"

text \<open>
  \<^verbatim>\<open>const getSegmentData = (segment: number) => {
      const segmentEl = $(`${todayCard} ul > li:nth-child(${segment})`);
      return { temp: getTemp(SELECTORS.temperature, segmentEl),
               condition: getText(SELECTORS.condition, segmentEl),
               rain: getPercentage(SELECTORS.chanceOfRain, segmentEl),
               active: segmentEl.is(SELECTORS.periodOfDay) }; };\<close>
\<close>

definition getSegmentData :: "nat \<Rightarrow> state \<Rightarrow> SegmentData \<times> state" where
  "getSegmentData segment st =
     (let segmentEl = select_root (segmentSelector segment) st;
          (t, st1) = getTemp SELECTORS_temperature (Some segmentEl) st;
          (c, st2) = getText SELECTORS_condition (Some segmentEl) st1;
          (r, st3) = getPercentage SELECTORS_chanceOfRain (Some segmentEl) st2;
          a = is_sel SELECTORS_periodOfDay segmentEl st3
      in (\<lparr>temp = t, condition = c, rain = r, active = a\<rparr>, st3))"

text \<open>
  \<^verbatim>\<open>let currentDayStage = null;
  if (morning.active) currentDayStage = 'Morning';
  else if (afternoon.active) currentDayStage = 'Afternoon';
  else if (evening.active) currentDayStage = 'Evening';
  else if (overnight.active) currentDayStage = 'Overnight';\<close>
\<close>

definition dayStage :: "SegmentData \<Rightarrow> SegmentData \<Rightarrow> SegmentData \<Rightarrow> SegmentData \<Rightarrow> jsstring option" where
  "dayStage morning afternoon evening overnight =
     (if active morning then Some (str ''Morning'')
      else if active afternoon then Some (str ''Afternoon'')
      else if active evening then Some (str ''Evening'')
      else if active overnight then Some (str ''Overnight'')
      else None)"

text \<open>
  The body of \<^verbatim>\<open>.each((i, el) => { ... next.push({...}) })\<close> over the rows of the
  following days: high and low are read first, then the fields of the pushed object in
  the order they are written.
\<close>

definition dayRow :: "root \<Rightarrow> path \<Rightarrow> state \<Rightarrow> DayRoundWeather \<times> state" where
  "dayRow r el st =
     (let dayCard = (r, [el]);
          highTemp = normalizeTemperature
                       (text_sel (first_sel (find_sel SELECTORS_temperature dayCard st)) st);
          lowTemp = normalizeTemperature
                      (text_sel (last_sel (find_sel SELECTORS_temperature dayCard st)) st);
          (d, st1) = getText h3_span (Some dayCard) st;
          (c, st2) = getText SELECTORS_condition (Some dayCard) st1;
          (p, st3) = getPercentage SELECTORS_chanceOfRain (Some dayCard) st2
      in (\<lparr>date = d, condition = c, chanceOfRain = p, tempLow = lowTemp, tempHigh = highTemp\<rparr>,
          st3))"

fun eachDay :: "root \<Rightarrow> path list \<Rightarrow> state \<Rightarrow> DayRoundWeather list \<times> state" where
  "eachDay r [] st = ([], st)"
| "eachDay r (el # els) st =
     (let (d, st1) = dayRow r el st;
          (ds, st2) = eachDay r els st1
      in (d # ds, st2))"

text \<open>
  \<^verbatim>\<open>fetchWeather\<close>, from the parsed page on (the page is fetched over the network and
  parsed by \<^verbatim>\<open>cheerio.load\<close> before). It starts in the state \<open>initial page\<close>, with no
  copies and no warnings; the final state is returned with the forecast, for the
  warnings written on the way.
\<close>

definition asOf :: jsstring where
  "asOf = str ''As of ''"

definition initial :: "node list \<Rightarrow> state" where
  "initial page = \<lparr>document = page, fragments = [], diags = []\<rparr>"

definition fetchWeather :: "node list \<Rightarrow> Forecast \<times> state" where
  "fetchWeather page =
     (let st0 = initial page;
          todayDetailsCard = select_root SELECTORS_todayDetails st0;
          (curTemp, st1) = getTemp SELECTORS_currentTemp None st0;
          (curFeltTemp, st2) = getTemp SELECTORS_temperature (Some todayDetailsCard) st1;
          (curCondition, st3) = getText SELECTORS_currentCondition None st2;
          (timeText, st4) = getText SELECTORS_time None st3;
          curTime = (case timeText of
                       None \<Rightarrow> None
                     | Some t \<Rightarrow> (let u = replace asOf [] t in if u = [] then None else Some u));
          (curUvIndex, st5) = getText SELECTORS_uvIndex (Some todayDetailsCard) st4;
          (curWind, st6) = getText SELECTORS_wind (Some todayDetailsCard) st5;
          (curHumidity, st7) = getPercentage SELECTORS_percentage (Some todayDetailsCard) st6;
          highTemp = normalizeTemperature
                       (text_sel (first_sel (find_sel SELECTORS_temperature todayDetailsCard st7)) st7);
          lowTemp = normalizeTemperature
                      (text_sel (last_sel (find_sel SELECTORS_temperature todayDetailsCard st7)) st7);
          (morning, st8) = getSegmentData 1 st7;
          (afternoon, st9) = getSegmentData 2 st8;
          (evening, st10) = getSegmentData 3 st9;
          (overnight, st11) = getSegmentData 4 st10;
          stage = dayStage morning afternoon evening overnight;
          td = \<lparr>tempHigh = highTemp,
                tempLow = lowTemp,
                currentTime = curTime,
                currentTemp = curTemp,
                currentFeltTemp = curFeltTemp,
                currentCondition = curCondition,
                currentHumidity = curHumidity,
                currentUvIndex = curUvIndex,
                currentWind = curWind,
                morningChanceOfRain = rain morning,
                morningCondition = SegmentData.condition morning,
                morningTemperature = temp morning,
                afternoonChanceOfRain = rain afternoon,
                afternoonCondition = SegmentData.condition afternoon,
                afternoonTemperature = temp afternoon,
                eveningChanceOfRain = rain evening,
                eveningCondition = SegmentData.condition evening,
                eveningTemperature = temp evening,
                overnightChanceOfRain = rain overnight,
                overnightCondition = SegmentData.condition overnight,
                overnightTemperature = temp overnight,
                currentDayStage = stage\<rparr>;
          rows = slice_from 1 (select_root SELECTORS_followingDays st11);
          (nx, st12) = eachDay (fst rows) (snd rows) st11
      in (\<lparr>today = td, next = nx\<rparr>, st12))"

section \<open>The outlook of getWeather\<close>

text \<open>
  The command-line program \<^verbatim>\<open>getWeather\<close> reads the same page with its own copies of
  the helpers. Its \<^verbatim>\<open>getText\<close> returns the trimmed text as it is, and its rows are
  \<^verbatim>\<open>$(SELECTORS.followingDays).slice(1, 3)\<close>, with
  \<^verbatim>\<open>tempHigh: highTemp.length > 0 ? parseInt(highTemp.text().replace('\<degree>', ''), 10) : null\<close>.
  The rows have the same interface \<^verbatim>\<open>DayRoundWeather\<close>.
\<close>

definition getText_cli :: "selector \<Rightarrow> selection option \<Rightarrow> state \<Rightarrow> jsstring option \<times> state" where
  "getText_cli selector context st =
     (let element = query selector context st
      in if length (snd element) > 0 then (Some (trim (text_sel element st)), st)
         else (None, warn selector st))"

definition dayRow_cli :: "root \<Rightarrow> path \<Rightarrow> state \<Rightarrow> DayRoundWeather \<times> state" where
  "dayRow_cli r el st =
     (let dayCard = (r, [el]);
          highTemp = first_sel (find_sel SELECTORS_temperature dayCard st);
          lowTemp = last_sel (find_sel SELECTORS_temperature dayCard st);
          (d, st1) = getText_cli h3_span (Some dayCard) st;
          (c, st2) = getText_cli SELECTORS_condition (Some dayCard) st1;
          (p, st3) = getPercentage SELECTORS_chanceOfRain (Some dayCard) st2;
          hi = (if length (snd highTemp) > 0
                then Some (parseInt10 (replace degree [] (text_sel highTemp st3))) else None);
          lo = (if length (snd lowTemp) > 0
                then Some (parseInt10 (replace degree [] (text_sel lowTemp st3))) else None)
      in (\<lparr>date = d, condition = c, chanceOfRain = p, tempLow = lo, tempHigh = hi\<rparr>, st3))"

fun eachDay_cli :: "root \<Rightarrow> path list \<Rightarrow> state \<Rightarrow> DayRoundWeather list \<times> state" where
  "eachDay_cli r [] st = ([], st)"
| "eachDay_cli r (el # els) st =
     (let (d, st1) = dayRow_cli r el st;
          (ds, st2) = eachDay_cli r els st1
      in (d # ds, st2))"

definition getWeather_next :: "state \<Rightarrow> DayRoundWeather list \<times> state" where
  "getWeather_next st =
     (let rows = slice_sel 1 3 (select_root SELECTORS_followingDays st)
      in eachDay_cli (fst rows) (snd rows) st)"

section \<open>fetchLocations\<close>

text \<open>
  The search response as the program reads it. \<open>dalResponse\<close> is the object under
  \<^verbatim>\<open>data.dal.getSunV3LocationSearchUrlConfig\<close>: its own keys, in the order
  \<^verbatim>\<open>Object.keys\<close> lists them, each with its entry. An entry may lack \<^verbatim>\<open>data\<close>, the data
  may lack \<^verbatim>\<open>location\<close>, and the location may lack any of its four parallel arrays
  (\<open>None\<close>: \<^verbatim>\<open>undefined\<close> or \<^verbatim>\<open>null\<close>). The elements of \<^verbatim>\<open>city\<close>, \<^verbatim>\<open>adminDistrict\<close> and
  \<^verbatim>\<open>country\<close> are strings or \<^verbatim>\<open>null\<close>.
\<close>

record LocationsRaw =
  placeId :: "jsstring list option"
  city :: "jsstring option list option"
  adminDistrict :: "jsstring option list option"
  country :: "jsstring option list option"

record EntryData =
  location :: "LocationsRaw option"

record Entry =
  data :: "EntryData option"

type_synonym DalResponse = "(jsstring \<times> Entry) list"

record Location =
  placeId :: jsstring
  name :: jsstring

datatype js_error = TypeError

text \<open>\<^verbatim>\<open>`${arr[i]}`\<close>: the element, \<^verbatim>\<open>null\<close>, or \<^verbatim>\<open>undefined\<close> beyond the end.\<close>

definition elemText :: "jsstring option list \<Rightarrow> nat \<Rightarrow> jsstring" where
  "elemText arr i =
     (if i < length arr then (case arr ! i of None \<Rightarrow> str ''null'' | Some s \<Rightarrow> s)
      else str ''undefined'')"

text \<open>
  \<^verbatim>\<open>const dalResponse = locationResponse.data.dal.getSunV3LocationSearchUrlConfig;
  const dynamicKey = Object.keys(dalResponse)[0];
  const locationsRaw = dalResponse[dynamicKey].data.location;
  const locations = [];
  if (locationsRaw && locationsRaw.placeId) {
    for (let i = 0; i < locationsRaw.placeId.length; i++) {
      locations.push({ placeId: locationsRaw.placeId[i],
        name: `${locationsRaw.city[i]}, ${locationsRaw.adminDistrict[i]}, ${locationsRaw.country[i]}` });
    } }
  return locations\<close>
  Reading a property of \<^verbatim>\<open>undefined\<close> throws a TypeError.
\<close>

definition fetchLocations :: "DalResponse \<Rightarrow> js_error + Location list" where
  "fetchLocations dalResponse =
     (case dalResponse of
        [] \<Rightarrow> Inl TypeError
      | (dynamicKey, v) # rest \<Rightarrow>
          (case map_of dalResponse dynamicKey of
             None \<Rightarrow> Inl TypeError
           | Some entry \<Rightarrow>
               (case data entry of
                  None \<Rightarrow> Inl TypeError
                | Some d \<Rightarrow>
                    (case location d of
                       None \<Rightarrow> Inr []
                     | Some locationsRaw \<Rightarrow>
                         (case LocationsRaw.placeId locationsRaw of
                            None \<Rightarrow> Inr []
                          | Some ids \<Rightarrow>
                              if ids = [] then Inr []
                              else (case (city locationsRaw, adminDistrict locationsRaw,
                                          country locationsRaw) of
                                      (Some c, Some a, Some k) \<Rightarrow>
                                        Inr (map (\<lambda>i. \<lparr>placeId = ids ! i,
                                                        name = elemText c i @ str '', '' @
                                                               elemText a i @ str '', '' @
                                                               elemText k i\<rparr>)
                                                 [0..<length ids])
                                    | _ \<Rightarrow> Inl TypeError))))))"

section \<open>Example inputs\<close>

text \<open>A search response whose envelope has two keys.\<close>

definition twoKeyResponse :: DalResponse where
  "twoKeyResponse =
     [(str ''language:en-US;locationType:locale;query:Gary'',
       \<lparr>data = Some \<lparr>location = Some
          \<lparr>LocationsRaw.placeId = Some [str ''p1''], city = Some [Some (str ''Gary'')],
           adminDistrict = Some [Some (str ''Indiana'')], country = Some [Some (str ''US'')]\<rparr>\<rparr>\<rparr>),
      (str ''language:en-US;locationType:locale;query:Gary;v2'',
       \<lparr>data = Some \<lparr>location = Some
          \<lparr>LocationsRaw.placeId = Some [str ''p2''], city = Some [Some (str ''Cary'')],
           adminDistrict = Some [None], country = Some [Some (str ''US'')]\<rparr>\<rparr>\<rparr>)]"

text \<open>
  Pages are written with \<open>elt\<close> and \<open>tx\<close>, which take ASCII literals. \<open>htmlDoc\<close> puts
  the content of a body where the parser puts it: in the \<^verbatim>\<open>body\<close> of an \<^verbatim>\<open>html\<close>
  element, after the \<^verbatim>\<open>head\<close>.
\<close>

definition elt :: "string \<Rightarrow> (string \<times> string) list \<Rightarrow> node list \<Rightarrow> node" where
  "elt t a ks = Elem t (map (\<lambda>(k, v). (k, str v)) a) ks"

definition tx :: "string \<Rightarrow> node" where
  "tx s = Text (str s)"

definition htmlDoc :: "node list \<Rightarrow> node list" where
  "htmlDoc content = [elt ''html'' [] [elt ''head'' [] [], elt ''body'' [] content]]"

definition temperatureValue :: "string \<Rightarrow> node" where
  "temperatureValue s =
     Elem ''span'' [(''data-testid'', str ''TemperatureValue'')] [Text (str s @ degree)]"

text \<open>A page with an empty body.\<close>

definition emptyPage :: "node list" where
  "emptyPage = htmlDoc []"

text \<open>
  A rain-chance node as the site renders it: an icon and a hidden label, then the
  text \<^verbatim>\<open>20%\<close>.
\<close>

definition rainChance :: node where
  "rainChance =
     elt ''div'' [(''class'', ''Column--precip--Yv6V4'')]
        [elt ''svg'' [] [elt ''title'' [] [tx ''Rain'']],
         elt ''span'' [(''class'', ''Accessibility--visuallyHidden'')] [tx ''Chance of Rain''],
         tx ''20%'']"

definition leafPage :: "node list" where
  "leafPage = htmlDoc [rainChance]"

text \<open>A rain-chance node all of whose text is inside a child element.\<close>

definition wrappedRainChance :: node where
  "wrappedRainChance = elt ''div'' [(''class'', ''Column--precip--Yv6V4'')] [elt ''span'' [] [tx ''20%'']]"

definition wrappedLeafPage :: "node list" where
  "wrappedLeafPage = htmlDoc [wrappedRainChance]"

text \<open>
  A today card whose second and third segments both carry the active class.
\<close>

definition segmentItem :: "bool \<Rightarrow> string \<Rightarrow> node" where
  "segmentItem act t =
     elt ''li'' [(''class'', if act then ''Column--column--3tAuz Column--active--27U5T''
                            else ''Column--column--3tAuz'')]
        [elt ''div'' [(''class'', ''Column--temp--1sO_J'')] [temperatureValue t]]"

definition twoActivePage :: "node list" where
  "twoActivePage =
     htmlDoc
       [elt ''section'' [(''id'', ''WxuTodayWeatherCard-main-9889d1cd'')]
          [elt ''ul'' []
             [segmentItem False ''70'', segmentItem True ''82'',
              segmentItem True ''75'', segmentItem False ''66'']]]"

text \<open>A daily table of five rows, and nothing else.\<close>

definition dayItem :: "string \<Rightarrow> node" where
  "dayItem d = elt ''li'' [] [elt ''h3'' [] [elt ''span'' [] [tx d]]]"

definition fiveRowsPage :: "node list" where
  "fiveRowsPage =
     htmlDoc
       [elt ''section'' [(''data-testid'', ''DailyWeatherModule'')]
          [elt ''ul'' [(''data-testid'', ''WeatherTable'')]
             [dayItem ''Today'', dayItem ''Tue 04'', dayItem ''Wed 05'',
              dayItem ''Thu 06'', dayItem ''Fri 07'']]]"

text \<open>
  A page with the details module (a felt temperature, then the high and the low) and a
  daily table of two rows, but no today card.
\<close>

definition detailsPage :: "node list" where
  "detailsPage =
     htmlDoc
       [elt ''section'' [(''data-testid'', ''TodaysDetailsModule'')]
          [temperatureValue ''74'',
           elt ''div'' [] [temperatureValue ''85'', tx ''/'', temperatureValue ''61'']],
        elt ''section'' [(''data-testid'', ''DailyWeatherModule'')]
          [elt ''ul'' [(''data-testid'', ''WeatherTable'')]
             [elt ''li'' [] [temperatureValue ''85'', temperatureValue ''61''],
              elt ''li'' [] [temperatureValue ''88'', tx ''/'', temperatureValue ''64'']]]]"

text \<open>A page whose only temperature node holds a single space.\<close>

definition blankTemperaturePage :: "node list" where
  "blankTemperaturePage =
     htmlDoc [Elem ''span'' [(''data-testid'', str ''TemperatureValue'')] [Text [32]]]"

section \<open>Notions of the specification\<close>

text \<open>
  The leaf text of a node, in the words of the specification: the text of the node once
  the subtrees of its children are excluded. For an element it is the data of the text
  nodes that are its own children.
\<close>

fun ownText :: "node \<Rightarrow> jsstring" where
  "ownText (Elem t a ks) = concat (map (\<lambda>k. case k of Text s \<Rightarrow> s | _ \<Rightarrow> []) ks)"
| "ownText n = textContent n"

text \<open>An element without its child elements.\<close>

fun stripChildren :: "node \<Rightarrow> node" where
  "stripChildren (Elem t a ks) = Elem t a (filter (\<lambda>k. \<not> isElem k) ks)"
| "stripChildren n = n"

text \<open>
  Document order on paths: a node comes before the nodes below it and before the nodes
  below or equal to its later siblings.
\<close>

fun docBefore :: "path \<Rightarrow> path \<Rightarrow> bool" where
  "docBefore [] [] = False"
| "docBefore [] (y # ys) = True"
| "docBefore (x # xs) [] = False"
| "docBefore (x # xs) (y # ys) = (x < y \<or> (x = y \<and> docBefore xs ys))"

text \<open>
  The data of a segment and of an outlook row as read from a page in its initial state.
\<close>

definition segmentOf :: "node list \<Rightarrow> nat \<Rightarrow> SegmentData" where
  "segmentOf page n = fst (getSegmentData n (initial page))"

definition rowOf :: "node list \<Rightarrow> path \<Rightarrow> DayRoundWeather" where
  "rowOf page el = fst (dayRow Doc el (initial page))"

text \<open>
  The four segments in their fixed order, and the label that \<^verbatim>\<open>currentDayStage\<close> carries
  for each.
\<close>

datatype segmentName = morning | afternoon | evening | overnight

fun label :: "segmentName \<Rightarrow> jsstring" where
  "label morning = str ''Morning''"
| "label afternoon = str ''Afternoon''"
| "label evening = str ''Evening''"
| "label overnight = str ''Overnight''"

text \<open>The first segment, in the fixed order, whose flag is set.\<close>

definition firstActive :: "bool \<Rightarrow> bool \<Rightarrow> bool \<Rightarrow> bool \<Rightarrow> segmentName option" where
  "firstActive fm fa fe fo =
     map_option fst (List.find snd [(morning, fm), (afternoon, fa), (evening, fe), (overnight, fo)])"

text \<open>The position of a segment among the children of the today card's list.\<close>

fun position :: "segmentName \<Rightarrow> nat" where
  "position morning = 1"
| "position afternoon = 2"
| "position evening = 3"
| "position overnight = 4"

text \<open>The selectors that \<^verbatim>\<open>fetchWeather\<close> passes to a leaf lookup.\<close>

definition leafSelectors :: "selector set" where
  "leafSelectors =
     {SELECTORS_currentTemp, SELECTORS_temperature, SELECTORS_currentCondition, SELECTORS_time,
      SELECTORS_uvIndex, SELECTORS_wind, SELECTORS_percentage, SELECTORS_condition,
      SELECTORS_chanceOfRain, h3_span}"

text \<open>Every path of a list leads to an element of the forest.\<close>

definition elemPaths :: "path list \<Rightarrow> node list \<Rightarrow> bool" where
  "elemPaths ps f \<longleftrightarrow> (\<forall>p \<in> set ps. \<exists>t a ks. node_at f p = Some (Elem t a ks))"

text \<open>Every warning written so far names a selector of a leaf lookup.\<close>

definition onlyLeafWarnings :: "state \<Rightarrow> bool" where
  "onlyLeafWarnings st \<longleftrightarrow> set (diags st) \<subseteq> leafSelectors"

text \<open>
  What a leaf lookup writes for the nodes it found: one warning, naming its selector,
  when it found none.
\<close>

definition missed :: "selector \<Rightarrow> path list \<Rightarrow> selector list" where
  "missed s found = (if found = [] then [s] else [])"

text \<open>
  The warnings of the leaf lookups of a run, in the order of the calls: the seven
  lookups of the current conditions (four of them inside the details module), the three
  lookups inside a segment of the today card, and the three lookups inside a row of the
  daily table. The lookups of the details module, of a segment and of the rows, and the
  reads of the high and the low, have no entry.
\<close>

definition currentWarnings :: "node list \<Rightarrow> selector list" where
  "currentWarnings page =
     (let todayDetailsCard = selectF SELECTORS_todayDetails page
      in missed SELECTORS_currentTemp (selectF SELECTORS_currentTemp page) @
         missed SELECTORS_temperature (findF SELECTORS_temperature todayDetailsCard page) @
         missed SELECTORS_currentCondition (selectF SELECTORS_currentCondition page) @
         missed SELECTORS_time (selectF SELECTORS_time page) @
         missed SELECTORS_uvIndex (findF SELECTORS_uvIndex todayDetailsCard page) @
         missed SELECTORS_wind (findF SELECTORS_wind todayDetailsCard page) @
         missed SELECTORS_percentage (findF SELECTORS_percentage todayDetailsCard page))"

definition segmentWarnings :: "node list \<Rightarrow> nat \<Rightarrow> selector list" where
  "segmentWarnings page n =
     (let segmentEl = selectF (segmentSelector n) page
      in missed SELECTORS_temperature (findF SELECTORS_temperature segmentEl page) @
         missed SELECTORS_condition (findF SELECTORS_condition segmentEl page) @
         missed SELECTORS_chanceOfRain (findF SELECTORS_chanceOfRain segmentEl page))"

definition rowWarnings :: "node list \<Rightarrow> path \<Rightarrow> selector list" where
  "rowWarnings page el =
     missed h3_span (findF h3_span [el] page) @
     missed SELECTORS_condition (findF SELECTORS_condition [el] page) @
     missed SELECTORS_chanceOfRain (findF SELECTORS_chanceOfRain [el] page)"

section \<open>Parsing temperatures\<close>

lemma not_ws_degree: "\<not> isWhiteSpace 176"
  by (simp add: isWhiteSpace_def)

lemma digit_not_ws: "isDigit c \<Longrightarrow> \<not> isWhiteSpace c"
  by (auto simp: isWhiteSpace_def isDigit_def)

lemma replace_absent: "c \<notin> set t \<Longrightarrow> replace [c] [] t = t"
  by (induction t) auto

lemma replace_degree_digits:
  "list_all isDigit ds \<Longrightarrow> replace degree [] (ds @ degree @ r) = ds @ r"
  by (induction ds) (auto simp: degree_def isDigit_def)

lemma parseInt10_blank: "list_all isWhiteSpace t \<Longrightarrow> parseInt10 t = NaN"
proof -
  assume "list_all isWhiteSpace t"
  then have dw: "dropWhile isWhiteSpace t = []" by (simp add: list_all_iff)
  show ?thesis unfolding parseInt10_def dw by simp
qed

lemma parseInt10_parts:
  assumes w: "list_all isWhiteSpace w"
    and sg: "sg = [] \<or> sg = [43] \<or> sg = [45]"
    and ds: "list_all isDigit ds"
    and r: "r = [] \<or> \<not> isDigit (hd r)"
    and bare: "sg = [] \<and> ds = [] \<longrightarrow>
                 r = [] \<or> (\<not> isWhiteSpace (hd r) \<and> hd r \<noteq> 43 \<and> hd r \<noteq> 45)"
  shows "parseInt10 (w @ sg @ ds @ r) =
           (if ds = [] then NaN else toNumber (sg = [45]) (digitsValue ds))"
proof -
  let ?rest = "sg @ ds @ r"
  have d0: "ds \<noteq> [] \<Longrightarrow> isDigit (hd ds)" using ds by (cases ds) auto
  have hd_rest: "?rest = [] \<or> \<not> isWhiteSpace (hd ?rest)"
  proof (cases "sg = []")
    case False
    then show ?thesis using sg by (auto simp: isWhiteSpace_def)
  next
    case True
    show ?thesis
    proof (cases "ds = []")
      case False
      then show ?thesis using True d0 digit_not_ws by simp
    next
      case dse: True
      then show ?thesis using True bare by auto
    qed
  qed
  have "dropWhile isWhiteSpace (w @ ?rest) = dropWhile isWhiteSpace ?rest"
    using w by (intro dropWhile_append2) (simp add: list_all_iff)
  also have "\<dots> = ?rest" using hd_rest by (cases ?rest) auto
  finally have S: "dropWhile isWhiteSpace (w @ sg @ ds @ r) = ?rest" .
  have neg: "(?rest \<noteq> [] \<and> hd ?rest = 45) = (sg = [45])"
  proof (cases "sg = []")
    case False
    then show ?thesis using sg by auto
  next
    case True
    show ?thesis
    proof (cases "ds = []")
      case False
      then show ?thesis using True d0 by (auto simp: isDigit_def)
    next
      case dse: True
      then show ?thesis using True bare by auto
    qed
  qed
  have S': "(if ?rest \<noteq> [] \<and> (hd ?rest = 43 \<or> hd ?rest = 45) then tl ?rest else ?rest) = ds @ r"
  proof (cases "sg = []")
    case False
    then show ?thesis using sg by auto
  next
    case True
    show ?thesis
    proof (cases "ds = []")
      case False
      then show ?thesis using True d0 by (auto simp: isDigit_def)
    next
      case dse: True
      then show ?thesis using True bare by auto
    qed
  qed
  have "takeWhile isDigit r = []" using r by (cases r) auto
  then have Z: "takeWhile isDigit (ds @ r) = ds"
    using ds by (simp add: takeWhile_append2 list_all_iff)
  show ?thesis
    unfolding parseInt10_def S Let_def neg S' Z by simp
qed

lemma parseInt10_digits:
  assumes "list_all isDigit ds" "ds \<noteq> []" "r = [] \<or> \<not> isDigit (hd r)"
  shows "parseInt10 (ds @ r) = toNumber False (digitsValue ds)"
  using parseInt10_parts[of "[]" "[]" ds r] assms by simp

lemma toNumber_small:
  "0 < n \<Longrightarrow> n < 2 ^ 53 \<Longrightarrow> toNumber False n = Num (int n) \<and> toNumber True n = Num (- int n)"
proof -
  assume n: "0 < n" "n < 2 ^ 53"
  have "(2::nat) ^ 53 \<le> 2 ^ 1024" by (rule power_increasing) simp_all
  then have "\<not> 2 ^ 1024 \<le> n" using n by linarith
  then show ?thesis using n by (simp add: toNumber_def roundToDouble_def)
qed

lemma toNumber_zero: "toNumber False 0 = Num 0" "toNumber True 0 = NegZero"
  by (simp_all add: toNumber_def)

lemma digitsValue_snoc: "digitsValue (ds @ [d]) = 10 * digitsValue ds + (d - 48)"
  by (simp add: digitsValue_def)

declare bitLength.simps [simp del]

lemma bitLength_bounds: "n \<noteq> 0 \<Longrightarrow> 2 ^ (bitLength n - 1) \<le> n \<and> n < 2 ^ bitLength n"
proof (induction n rule: bitLength.induct)
  case (1 n)
  show ?case
  proof (cases "n div 2 = 0")
    case True
    then have "n = 1" using "1.prems" by (auto simp: div_eq_0_iff)
    then show ?thesis by (simp add: bitLength.simps[of "Suc 0"] bitLength.simps[of 0])
  next
    case False
    from "1.IH"[OF "1.prems" False] have ih: "2 ^ (bitLength (n div 2) - 1) \<le> n div 2"
      "n div 2 < 2 ^ bitLength (n div 2)" by auto
    have bl: "bitLength n = Suc (bitLength (n div 2))"
      using "1.prems" by (simp add: bitLength.simps[of n])
    have "bitLength (n div 2) \<noteq> 0" using False by (simp add: bitLength.simps[of "n div 2"])
    then obtain k where k: "bitLength (n div 2) = Suc k" by (cases "bitLength (n div 2)") auto
    show ?thesis using ih unfolding bl k by auto
  qed
qed

lemma parseInt10_decompose:
  "\<exists>w sg ds r. t = w @ sg @ ds @ r \<and> list_all isWhiteSpace w \<and>
     (sg = [] \<or> sg = [43] \<or> sg = [45]) \<and> list_all isDigit ds \<and>
     (r = [] \<or> \<not> isDigit (hd r)) \<and>
     (sg = [] \<and> ds = [] \<longrightarrow>
        r = [] \<or> (\<not> isWhiteSpace (hd r) \<and> hd r \<noteq> 43 \<and> hd r \<noteq> 45))"
proof -
  define w where "w = takeWhile isWhiteSpace t"
  define S where "S = dropWhile isWhiteSpace t"
  have t: "t = w @ S" by (simp add: w_def S_def)
  have w: "list_all isWhiteSpace w"
    unfolding w_def list_all_iff using set_takeWhileD by fastforce
  have S: "S = [] \<or> \<not> isWhiteSpace (hd S)"
    unfolding S_def using hd_dropWhile[of isWhiteSpace t] by blast
  have dg: "list_all isDigit (takeWhile isDigit xs)" for xs
    unfolding list_all_iff using set_takeWhileD by fastforce
  have rs: "dropWhile isDigit xs = [] \<or> \<not> isDigit (hd (dropWhile isDigit xs))" for xs
    using hd_dropWhile[of isDigit xs] by blast
  show ?thesis
  proof (cases "S \<noteq> [] \<and> (hd S = 43 \<or> hd S = 45)")
    case True
    then have S': "S = [hd S] @ takeWhile isDigit (tl S) @ dropWhile isDigit (tl S)"
      by (cases S) simp_all
    have "t = w @ [hd S] @ takeWhile isDigit (tl S) @ dropWhile isDigit (tl S)"
      using t S' by simp
    moreover have "[hd S] = [43] \<or> [hd S] = [45]" using True by simp
    ultimately show ?thesis using w dg[of "tl S"] rs[of "tl S"] by blast
  next
    case False
    have t': "t = w @ [] @ takeWhile isDigit S @ dropWhile isDigit S" using t by simp
    have "takeWhile isDigit S = [] \<longrightarrow> dropWhile isDigit S = S"
      by (cases S) (auto split: if_splits)
    then have last: "takeWhile isDigit S = [] \<longrightarrow> dropWhile isDigit S = [] \<or>
        (\<not> isWhiteSpace (hd (dropWhile isDigit S)) \<and> hd (dropWhile isDigit S) \<noteq> 43 \<and>
         hd (dropWhile isDigit S) \<noteq> 45)"
      using S False by auto
    show ?thesis
      using t' w dg[of S] rs[of S] last by blast
  qed
qed

lemma roundToDouble_grid:
  assumes big: "2 ^ 53 \<le> n"
  shows "\<exists>k. 2 ^ 52 \<le> k \<and> k \<le> 2 ^ 53 \<and> roundToDouble n = k * 2 ^ (bitLength n - 53)"
    and "2 * (roundToDouble n - n) \<le> 2 ^ (bitLength n - 53)"
    and "2 * (n - roundToDouble n) \<le> 2 ^ (bitLength n - 53)"
    and "2 * (n mod 2 ^ (bitLength n - 53)) = 2 ^ (bitLength n - 53) \<longrightarrow>
           even (roundToDouble n div 2 ^ (bitLength n - 53))"
    and "2 ^ (bitLength n - 1) \<le> roundToDouble n"
proof -
  define ulp :: nat where "ulp = 2 ^ (bitLength n - 53)"
  define q where "q = n div ulp"
  define r where "r = n mod ulp"
  define k where "k = (if 2 * r < ulp \<or> (2 * r = ulp \<and> even q) then q else q + 1)"
  have n0: "n \<noteq> 0" using big by auto
  from bitLength_bounds[OF n0] have lo: "2 ^ (bitLength n - 1) \<le> n" and hi: "n < 2 ^ bitLength n"
    by auto
  have h53: "(2::nat) ^ 53 < 2 ^ bitLength n" using big hi by linarith
  have b53: "53 < bitLength n" by (rule power_less_imp_less_exp[OF _ h53]) simp
  have ulp_pos: "0 < ulp" by (simp add: ulp_def)
  have p1: "(2::nat) ^ (bitLength n - 1) = 2 ^ 52 * ulp"
    unfolding ulp_def power_add[symmetric] using b53 by (intro arg_cong[where f="\<lambda>x. 2 ^ x"]) simp
  have p2: "(2::nat) ^ bitLength n = 2 ^ 53 * ulp"
    unfolding ulp_def power_add[symmetric] using b53 by (intro arg_cong[where f="\<lambda>x. 2 ^ x"]) simp
  have nqr: "n = q * ulp + r" by (simp add: q_def r_def)
  have r_lt: "r < ulp" using ulp_pos by (simp add: r_def)
  have q_lo: "2 ^ 52 \<le> q"
  proof -
    have "2 ^ 52 * ulp div ulp \<le> n div ulp" using lo unfolding p1 by (rule div_le_mono)
    then show ?thesis using ulp_pos by (simp add: q_def)
  qed
  have q_hi: "q < 2 ^ 53"
    unfolding q_def using hi ulp_pos unfolding p2 by (simp add: less_mult_imp_div_less)
  have rd: "roundToDouble n = k * ulp"
    using big by (simp add: roundToDouble_def Let_def k_def q_def r_def ulp_def)
  have k_lo: "2 ^ 52 \<le> k" using q_lo by (simp add: k_def)
  have k_hi: "k \<le> 2 ^ 53" using q_hi by (simp add: k_def)
  show "\<exists>k. 2 ^ 52 \<le> k \<and> k \<le> 2 ^ 53 \<and> roundToDouble n = k * 2 ^ (bitLength n - 53)"
    using k_lo k_hi rd unfolding ulp_def by blast
  show "2 * (roundToDouble n - n) \<le> 2 ^ (bitLength n - 53)"
    unfolding rd ulp_def[symmetric]
    using r_lt by (cases "2 * r < ulp \<or> (2 * r = ulp \<and> even q)") (auto simp: k_def nqr)
  show "2 * (n - roundToDouble n) \<le> 2 ^ (bitLength n - 53)"
    unfolding rd ulp_def[symmetric]
    using r_lt by (cases "2 * r < ulp \<or> (2 * r = ulp \<and> even q)") (auto simp: k_def nqr)
  show "2 * (n mod 2 ^ (bitLength n - 53)) = 2 ^ (bitLength n - 53) \<longrightarrow>
           even (roundToDouble n div 2 ^ (bitLength n - 53))"
    unfolding rd ulp_def[symmetric] r_def[symmetric]
    using ulp_pos by (auto simp: k_def)
  have "2 ^ 52 * ulp \<le> k * ulp" using k_lo by (rule mult_le_mono1)
  then show "2 ^ (bitLength n - 1) \<le> roundToDouble n"
    unfolding rd p1 .
qed

lemma roundToDouble_huge:
  assumes "2 ^ 1024 \<le> n"
  shows "2 ^ 1024 \<le> roundToDouble n"
proof -
  have "(2::nat) ^ 53 \<le> 2 ^ 1024" by (rule power_increasing) simp_all
  then have big: "2 ^ 53 \<le> n" using assms by linarith
  have n0: "n \<noteq> 0" using big by auto
  from bitLength_bounds[OF n0] have "n < 2 ^ bitLength n" by auto
  then have h: "(2::nat) ^ 1024 < 2 ^ bitLength n" using assms by linarith
  have "1024 < bitLength n" by (rule power_less_imp_less_exp[OF _ h]) simp
  then have "(2::nat) ^ 1024 \<le> 2 ^ (bitLength n - 1)" by (intro power_increasing) simp_all
  then show ?thesis using roundToDouble_grid(5)[OF big] by linarith
qed

lemma toNumber_huge:
  "2 ^ 1024 \<le> n \<Longrightarrow> toNumber False n = PosInfinity \<and> toNumber True n = NegInfinity"
  using roundToDouble_huge[of n] by (auto simp: toNumber_def)

lemma toNumber_rounded:
  "2 ^ 53 \<le> n \<Longrightarrow> roundToDouble n < 2 ^ 1024 \<Longrightarrow>
     toNumber False n = Num (int (roundToDouble n)) \<and>
     toNumber True n = Num (- int (roundToDouble n))"
  by (auto simp: toNumber_def)

lemma round_examples:
  "roundToDouble 9007199254740993 = 9007199254740992"
  "roundToDouble 9007199254740995 = 9007199254740996"
  by (simp_all add: roundToDouble_def Let_def bitLength.simps)

lemma replace_first_degree:
  "176 \<notin> set a \<Longrightarrow> replace degree [] (a @ degree @ b) = a @ b"
  by (induction a) (auto simp: degree_def)

lemma trim_blank: "list_all isWhiteSpace t \<Longrightarrow> trim t = []"
proof -
  assume "list_all isWhiteSpace t"
  then have dw: "dropWhile isWhiteSpace t = []" by (simp add: list_all_iff)
  show ?thesis unfolding trim_def dw by simp
qed

section \<open>Resolving locations\<close>

text \<open>
  C1, as the code has it. \<open>fetchLocations\<close> reads the entry under the first key of the
  envelope and never looks at the other keys: its result on an envelope with several
  keys is its result on the envelope cut down to the first key. No error is raised for
  the additional keys.
\<close>

theorem fetchLocations_first_key:
  "fetchLocations ((k, v) # rest) = fetchLocations [(k, v)]"
  by (simp add: fetchLocations_def)

text \<open>
  C1 as the specification states it fails: a response with two keys under the
  namespace is resolved to the place of its first key, not rejected.
\<close>

theorem fetchLocations_two_keys_counterexample:
  "length twoKeyResponse = 2 \<and>
   fetchLocations twoKeyResponse = Inr [\<lparr>placeId = str ''p1'', name = str ''Gary, Indiana, US''\<rparr>]"
  by (simp add: twoKeyResponse_def fetchLocations_def elemText_def str_def)

section \<open>Paths, copies and removal\<close>

lemma node_at_Suc: "node_at (n # ns) (Suc j # q) = node_at ns (j # q)"
  by (cases q) auto

lemma node_at_zero_kids: "q \<noteq> [] \<Longrightarrow> node_at (Elem t a ks # ns) (0 # q) = node_at ks q"
  by (cases q) auto

lemma walk_node_at:
  "(p, e, ancs) \<in> set (walk A pp i k ns) \<Longrightarrow>
     \<exists>j q t a ks m. p = pp @ (i + j) # q \<and> node_at ns (j # q) = Some (Elem t a ks) \<and>
        e = (t, a, m)"
proof (induction A pp i k ns arbitrary: p e ancs rule: walk.induct)
  case (1 A pp i k)
  then show ?case by simp
next
  case (2 A pp i k s ns)
  from "2.prems" have "(p, e, ancs) \<in> set (walk A pp (Suc i) k ns)" by simp
  from "2.IH"[OF this] obtain j q t a ks m where
    "p = pp @ (Suc i + j) # q" "node_at ns (j # q) = Some (Elem t a ks)" "e = (t, a, m)"
    by blast
  then show ?case
    by (intro exI[of _ "Suc j"] exI[of _ q] exI[of _ t] exI[of _ a] exI[of _ ks] exI[of _ m]) (simp add: node_at_Suc)
next
  case (3 A pp i k s ns)
  from "3.prems" have "(p, e, ancs) \<in> set (walk A pp (Suc i) k ns)" by simp
  from "3.IH"[OF this] obtain j q t a ks m where
    "p = pp @ (Suc i + j) # q" "node_at ns (j # q) = Some (Elem t a ks)" "e = (t, a, m)"
    by blast
  then show ?case
    by (intro exI[of _ "Suc j"] exI[of _ q] exI[of _ t] exI[of _ a] exI[of _ ks] exI[of _ m]) (simp add: node_at_Suc)
next
  case (4 A pp i k t a ks ns)
  from "4.prems" consider
      (self) "p = pp @ [i]" "e = (t, a, Suc k)"
    | (kid) "(p, e, ancs) \<in> set (walk ((pp @ [i], (t, a, Suc k)) # A) (pp @ [i]) 0 0 ks)"
    | (rest) "(p, e, ancs) \<in> set (walk A pp (Suc i) (Suc k) ns)"
    by auto
  then show ?case
  proof cases
    case self
    then show ?thesis
      by (intro exI[of _ 0] exI[of _ "[]"] exI[of _ t] exI[of _ a] exI[of _ ks] exI[of _ "Suc k"]) simp
  next
    case kid
    from "4.IH"(1)[OF kid] obtain j q t' a' ks' m where
      h: "p = (pp @ [i]) @ (0 + j) # q" "node_at ks (j # q) = Some (Elem t' a' ks')"
         "e = (t', a', m)"
      by blast
    then show ?thesis
      by (intro exI[of _ 0] exI[of _ "j # q"] exI[of _ t'] exI[of _ a'] exI[of _ ks'] exI[of _ m])
         (simp add: node_at_zero_kids)
  next
    case rest
    from "4.IH"(2)[OF rest] obtain j q t' a' ks' m where
      "p = pp @ (Suc i + j) # q" "node_at ns (j # q) = Some (Elem t' a' ks')" "e = (t', a', m)"
      by blast
    then show ?thesis
      by (intro exI[of _ "Suc j"] exI[of _ q] exI[of _ t'] exI[of _ a'] exI[of _ ks'] exI[of _ m])
         (simp add: node_at_Suc)
  qed
qed

lemma allElems_node_at:
  assumes "(p, e, ancs) \<in> set (allElems f)"
  shows "\<exists>t a ks. node_at f p = Some (Elem t a ks)"
  using walk_node_at[OF assms[unfolded allElems_def]] by auto

lemma mem_subpaths: "q \<in> set (subpaths i P) \<longleftrightarrow> i # q \<in> set P"
  by (force simp: subpaths_def image_iff)

lemma prune_kids:
  "(\<And>c. c < length ks \<Longrightarrow> ([i + c] \<in> set Q) = isElem (ks ! c)) \<Longrightarrow>
   prune Q i ks = filter (\<lambda>k. \<not> isElem k) ks"
proof (induction ks arbitrary: i)
  case Nil
  then show ?case by simp
next
  case (Cons n ks)
  have hd: "([i] \<in> set Q) = isElem n" using Cons.prems[of 0] by simp
  have tl: "\<And>c. c < length ks \<Longrightarrow> ([Suc i + c] \<in> set Q) = isElem (ks ! c)"
    using Cons.prems[of "Suc c" for c] by simp
  from Cons.IH[of "Suc i", OF tl] hd show ?case
    by (cases n) auto
qed

lemma prune_copies:
  "(\<And>j. j < length cs \<Longrightarrow> isElem (cs ! j) \<and> [i + j] \<notin> set P) \<Longrightarrow>
   (\<And>j c t a ks. j < length cs \<Longrightarrow> cs ! j = Elem t a ks \<Longrightarrow> c < length ks \<Longrightarrow>
        ([i + j, c] \<in> set P) = isElem (ks ! c)) \<Longrightarrow>
   prune P i cs = map stripChildren cs"
proof (induction cs arbitrary: i)
  case Nil
  then show ?case by simp
next
  case (Cons n cs)
  from Cons.prems(1)[of 0] obtain t a ks where n: "n = Elem t a ks" and ni: "[i] \<notin> set P"
    by (cases n) auto
  have kids: "prune (subpaths i P) 0 ks = filter (\<lambda>k. \<not> isElem k) ks"
    using Cons.prems(2)[of 0 t a ks] n by (intro prune_kids) (simp add: mem_subpaths)
  have rest: "prune P (Suc i) cs = map stripChildren cs"
  proof (rule Cons.IH)
    fix j assume "j < length cs"
    then show "isElem (cs ! j) \<and> [Suc i + j] \<notin> set P" using Cons.prems(1)[of "Suc j"] by simp
  next
    fix j c t a ks assume "j < length cs" "cs ! j = Elem t a ks" "c < length ks"
    then show "([Suc i + j, c] \<in> set P) = isElem (ks ! c)"
      using Cons.prems(2)[of "Suc j" t a ks c] by simp
  qed
  show ?case using n ni kids rest by simp
qed

lemma nodesF_Nil [simp]: "nodesF [] f = []"
  by (simp add: nodesF_def)

lemma nodesF_Cons:
  "nodesF (p # ps) f = (case node_at f p of Some n \<Rightarrow> [n] | None \<Rightarrow> []) @ nodesF ps f"
  by (simp add: nodesF_def)

lemma nodesF_append: "nodesF (ps @ qs) f = nodesF ps f @ nodesF qs f"
  by (simp add: nodesF_def)

lemma nodesF_tops_aux: "nodesF (map (\<lambda>i. [i]) [0..<k]) f = take k f"
proof (induction k)
  case 0
  then show ?case by simp
next
  case (Suc k)
  show ?case
  proof (cases "k < length f")
    case True
    then show ?thesis using Suc
      by (simp add: nodesF_append nodesF_Cons take_Suc_conv_app_nth)
  next
    case False
    then show ?thesis using Suc by (simp add: nodesF_append nodesF_Cons)
  qed
qed

lemma nodesF_tops: "nodesF (map (\<lambda>i. [i]) [0..<length f]) f = f"
  by (simp add: nodesF_tops_aux)

lemma elemPaths_selectF: "elemPaths (selectF sel f) f"
  unfolding elemPaths_def selectF_def using allElems_node_at by fastforce

lemma elemPaths_findF: "elemPaths (findF sel ctx f) f"
  unfolding elemPaths_def findF_def using allElems_node_at by fastforce

lemma elemPaths_nodesF:
  "elemPaths ps f \<Longrightarrow> list_all isElem (nodesF ps f) \<and> length (nodesF ps f) = length ps"
  by (induction ps) (auto simp: elemPaths_def nodesF_Cons)

lemma elementChildren_top_mem:
  "p \<in> set (elementChildren cs [j]) \<longleftrightarrow>
     (\<exists>c t a ks. p = [j, c] \<and> j < length cs \<and> cs ! j = Elem t a ks \<and>
        c < length ks \<and> isElem (ks ! c))"
proof (cases "j < length cs")
  case False
  then show ?thesis by (simp add: elementChildren_def)
next
  case True
  show ?thesis
  proof (cases "cs ! j")
    case (Elem t a ks)
    then show ?thesis using True by (auto simp: elementChildren_def)
  qed (use True in \<open>simp_all add: elementChildren_def\<close>)
qed

lemma childrenF_tops_mem:
  "p \<in> set (childrenF (map (\<lambda>i. [i]) [0..<m]) cs) \<longleftrightarrow>
     (\<exists>j c t a ks. p = [j, c] \<and> j < m \<and> j < length cs \<and> cs ! j = Elem t a ks \<and>
        c < length ks \<and> isElem (ks ! c))"
proof -
  have "p \<in> set (childrenF (map (\<lambda>i. [i]) [0..<m]) cs) \<longleftrightarrow>
        (\<exists>j < m. p \<in> set (elementChildren cs [j]))"
    by (auto simp: childrenF_def)
  then show ?thesis by (simp add: elementChildren_top_mem) blast
qed

lemma prune_children:
  assumes "list_all isElem cs"
  shows "prune (filter (\<lambda>p. 2 \<le> length p) (childrenF (map (\<lambda>i. [i]) [0..<length cs]) cs)) 0 cs
         = map stripChildren cs"
proof (rule prune_copies)
  fix j assume "j < length cs"
  then show "isElem (cs ! j) \<and>
     [0 + j] \<notin> set (filter (\<lambda>p. 2 \<le> length p) (childrenF (map (\<lambda>i. [i]) [0..<length cs]) cs))"
    using assms by (simp add: list_all_length)
next
  fix j c t a ks assume "j < length cs" "cs ! j = Elem t a ks" "c < length ks"
  then show "([0 + j, c] \<in> set (filter (\<lambda>p. 2 \<le> length p)
                 (childrenF (map (\<lambda>i. [i]) [0..<length cs]) cs))) = isElem (ks ! c)"
    by (simp add: childrenF_tops_mem)
qed

lemma textContent_strip_kids:
  "concat (map textContent (filter (\<lambda>k. \<not> isElem k) ks)) =
   concat (map (\<lambda>k. case k of Text s \<Rightarrow> s | _ \<Rightarrow> []) ks)"
proof (induction ks)
  case Nil
  then show ?case by simp
next
  case (Cons k ks)
  then show ?case by (cases k) simp_all
qed

lemma textContent_stripChildren: "isElem n \<Longrightarrow> textContent (stripChildren n) = ownText n"
  by (cases n) (simp_all add: textContent_strip_kids)

lemma text_stripped:
  "list_all isElem cs \<Longrightarrow> concat (map textContent (map stripChildren cs)) = concat (map ownText cs)"
  by (induction cs) (simp_all add: textContent_stripChildren)

lemma forest_Doc [simp]: "forest st Doc = document st"
  by (simp add: forest_def)

lemma query_elemPaths: "elemPaths (snd (query sel ctx st)) (forest st (fst (query sel ctx st)))"
  by (cases ctx)
     (auto simp: query_def select_root_def find_sel_def elemPaths_selectF elemPaths_findF
           split: prod.splits)

lemma getPercentage_eq:
  "getPercentage sel ctx st =
     (if snd (query sel ctx st) = [] then (None, warn sel st)
      else (Some (trim (concat (map ownText (nodes_of (query sel ctx st) st)))),
            st\<lparr>fragments := fragments st @ [map stripChildren (nodes_of (query sel ctx st) st)]\<rparr>))"
proof (cases "snd (query sel ctx st) = []")
  case True
  then show ?thesis by (simp add: getPercentage_def)
next
  case False
  obtain r ps where m: "query sel ctx st = (r, ps)" by (cases "query sel ctx st")
  define cs where "cs = nodesF ps (forest st r)"
  define n where "n = length (fragments st)"
  define st1 where "st1 = st\<lparr>fragments := fragments st @ [cs]\<rparr>"
  have el: "list_all isElem cs"
    using elemPaths_nodesF[OF query_elemPaths[of sel ctx st]] m by (simp add: cs_def)
  have f1: "forest st1 (Frag n) = cs"
    by (simp add: forest_def st1_def n_def)
  have cl: "clone_sel (r, ps) st = ((Frag n, map (\<lambda>i. [i]) [0..<length cs]), st1)"
    by (simp add: clone_sel_def Let_def nodes_of_def cs_def n_def st1_def)
  have ch: "children_sel (Frag n, map (\<lambda>i. [i]) [0..<length cs]) st1 =
            (Frag n, childrenF (map (\<lambda>i. [i]) [0..<length cs]) cs)"
    by (simp add: children_sel_def f1)
  have rm: "remove_sel (Frag n, childrenF (map (\<lambda>i. [i]) [0..<length cs]) cs) st1 =
            st\<lparr>fragments := fragments st @ [map stripChildren cs]\<rparr>"
    by (simp add: remove_sel_def f1 prune_children[OF el] set_forest_def) (simp add: st1_def n_def)
  have tx: "text_sel (Frag n, map (\<lambda>i. [i]) [0..<length cs])
              (st\<lparr>fragments := fragments st @ [map stripChildren cs]\<rparr>) = concat (map ownText cs)"
  proof -
    have "forest (st\<lparr>fragments := fragments st @ [map stripChildren cs]\<rparr>) (Frag n) = map stripChildren cs"
      by (simp add: forest_def n_def)
    then have "nodes_of (Frag n, map (\<lambda>i. [i]) [0..<length cs])
                 (st\<lparr>fragments := fragments st @ [map stripChildren cs]\<rparr>) = map stripChildren cs"
      using nodesF_tops[of "map stripChildren cs"] by (simp add: nodes_of_def)
    then show ?thesis using text_stripped[OF el] by (simp add: text_sel_def)
  qed
  have ne: "ps \<noteq> []" using False m by simp
  have "getPercentage sel ctx st =
          (Some (trim (concat (map ownText cs))),
           st\<lparr>fragments := fragments st @ [map stripChildren cs]\<rparr>)"
    using ne by (simp add: getPercentage_def m cl ch rm tx)
  then show ?thesis
    using ne by (simp add: m nodes_of_def cs_def)
qed

section \<open>What the helpers read and what they change\<close>

lemma document_initial [simp]: "document (initial page) = page"
  by (simp add: initial_def)

lemma document_warn [simp]: "document (warn s st) = document st"
  by (simp add: warn_def)

lemma query_None: "query s None st = (Doc, selectF s (document st))"
  by (simp add: query_def select_root_def)

lemma query_Doc: "query s (Some (Doc, ps)) st = (Doc, findF s ps (document st))"
  by (simp add: query_def find_sel_def)

lemma nodes_of_Doc: "nodes_of (Doc, ps) st = nodesF ps (document st)"
  by (simp add: nodes_of_def)

lemma text_sel_Doc: "text_sel (Doc, ps) st = concat (map textContent (nodesF ps (document st)))"
  by (simp add: text_sel_def nodes_of_def)

lemma is_sel_Doc: "is_sel s (Doc, ps) st = isF s ps (document st)"
  by (simp add: is_sel_def)

lemma find_sel_Doc: "find_sel s (Doc, ps) st = (Doc, findF s ps (document st))"
  by (simp add: find_sel_def)

lemma getText_fst:
  "fst (getText s c st) =
     (if snd (query s c st) = [] then None
      else if trim (text_sel (query s c st) st) = [] then None
      else Some (trim (text_sel (query s c st) st)))"
  by (simp add: getText_def Let_def)

lemma getText_snd: "snd (getText s c st) = (if snd (query s c st) = [] then warn s st else st)"
  by (simp add: getText_def Let_def)

lemma getTemp_fst:
  "fst (getTemp s c st) =
     normalizeTemperature (case fst (getText s c st) of None \<Rightarrow> [] | Some t \<Rightarrow> t)"
  by (simp add: getTemp_def split_def Let_def)

lemma getTemp_snd: "snd (getTemp s c st) = snd (getText s c st)"
  by (simp add: getTemp_def split_def Let_def)

lemma getPercentage_fst:
  "fst (getPercentage s c st) =
     (if snd (query s c st) = [] then None
      else Some (trim (concat (map ownText (nodes_of (query s c st) st)))))"
  by (simp add: getPercentage_eq)

lemma getPercentage_snd:
  "snd (getPercentage s c st) =
     (if snd (query s c st) = [] then warn s st
      else st\<lparr>fragments := fragments st @ [map stripChildren (nodes_of (query s c st) st)]\<rparr>)"
  by (simp add: getPercentage_eq)

lemma document_getText [simp]: "document (snd (getText s c st)) = document st"
  by (simp add: getText_snd)

lemma document_getTemp [simp]: "document (snd (getTemp s c st)) = document st"
  by (simp add: getTemp_snd)

lemma document_getPercentage [simp]: "document (snd (getPercentage s c st)) = document st"
  by (simp add: getPercentage_snd)

lemma diags_getText:
  "diags (snd (getText s c st)) = diags st @ (if snd (query s c st) = [] then [s] else [])"
  by (simp add: getText_snd warn_def)

lemma diags_getPercentage:
  "diags (snd (getPercentage s c st)) = diags st @ (if snd (query s c st) = [] then [s] else [])"
  by (simp add: getPercentage_snd warn_def)

lemmas doc_forms = query_None query_Doc nodes_of_Doc text_sel_Doc is_sel_Doc find_sel_Doc

lemma document_getSegmentData [simp]: "document (snd (getSegmentData n st)) = document st"
  by (simp add: getSegmentData_def Let_def split_def)

lemma getSegmentData_fst_initial:
  "fst (getSegmentData n st) = fst (getSegmentData n (initial (document st)))"
  by (simp add: getSegmentData_def Let_def split_def select_root_def
        getTemp_fst getText_fst getPercentage_fst doc_forms)

lemma document_dayRow [simp]: "document (snd (dayRow Doc el st)) = document st"
  by (simp add: dayRow_def Let_def split_def)

lemma dayRow_fst_initial:
  "fst (dayRow Doc el st) = fst (dayRow Doc el (initial (document st)))"
  by (simp add: dayRow_def Let_def split_def first_sel_def last_sel_def
        getText_fst getPercentage_fst doc_forms)

lemma eachDay_eq:
  "fst (eachDay Doc els st) = map (\<lambda>el. fst (dayRow Doc el (initial (document st)))) els \<and>
   document (snd (eachDay Doc els st)) = document st"
proof (induction els arbitrary: st)
  case Nil
  then show ?case by simp
next
  case (Cons el els)
  have "fst (dayRow Doc el st) = fst (dayRow Doc el (initial (document st)))"
    by (rule dayRow_fst_initial)
  with Cons[of "snd (dayRow Doc el st)"] show ?case
    by (simp add: split_def Let_def)
qed

lemma getSegmentData_fst: "fst (getSegmentData n st) = segmentOf (document st) n"
  using getSegmentData_fst_initial[of n st] by (simp add: segmentOf_def)

lemma eachDay_fst: "fst (eachDay Doc els st) = map (rowOf (document st)) els"
  using eachDay_eq[of els st] by (simp add: rowOf_def)

lemma document_eachDay [simp]: "document (snd (eachDay Doc els st)) = document st"
  using eachDay_eq[of els st] by simp

lemma fetchWeather_next:
  "next (fst (fetchWeather page)) = map (rowOf page) (drop 1 (selectF SELECTORS_followingDays page))"
  by (simp add: fetchWeather_def Let_def split_def slice_from_def select_root_def eachDay_fst)

lemma fetchWeather_document: "document (snd (fetchWeather page)) = page"
  by (simp add: fetchWeather_def Let_def split_def slice_from_def select_root_def)

lemma fetchWeather_stage:
  "currentDayStage (today (fst (fetchWeather page))) =
     dayStage (segmentOf page 1) (segmentOf page 2) (segmentOf page 3) (segmentOf page 4)"
  by (simp add: fetchWeather_def Let_def split_def getSegmentData_fst)

lemma fetchWeather_segments:
  "morningTemperature (today (fst (fetchWeather page))) = temp (segmentOf page 1)"
  "morningCondition (today (fst (fetchWeather page))) = SegmentData.condition (segmentOf page 1)"
  "morningChanceOfRain (today (fst (fetchWeather page))) = rain (segmentOf page 1)"
  "afternoonTemperature (today (fst (fetchWeather page))) = temp (segmentOf page 2)"
  "afternoonCondition (today (fst (fetchWeather page))) = SegmentData.condition (segmentOf page 2)"
  "afternoonChanceOfRain (today (fst (fetchWeather page))) = rain (segmentOf page 2)"
  "eveningTemperature (today (fst (fetchWeather page))) = temp (segmentOf page 3)"
  "eveningCondition (today (fst (fetchWeather page))) = SegmentData.condition (segmentOf page 3)"
  "eveningChanceOfRain (today (fst (fetchWeather page))) = rain (segmentOf page 3)"
  "overnightTemperature (today (fst (fetchWeather page))) = temp (segmentOf page 4)"
  "overnightCondition (today (fst (fetchWeather page))) = SegmentData.condition (segmentOf page 4)"
  "overnightChanceOfRain (today (fst (fetchWeather page))) = rain (segmentOf page 4)"
  by (simp_all add: fetchWeather_def Let_def split_def getSegmentData_fst)

lemma fetchWeather_high_low:
  "DayWeather.tempHigh (today (fst (fetchWeather page))) =
     normalizeTemperature (concat (map textContent (nodesF (take 1
        (findF SELECTORS_temperature (selectF SELECTORS_todayDetails page) page)) page)))"
  "DayWeather.tempLow (today (fst (fetchWeather page))) =
     normalizeTemperature (concat (map textContent (nodesF
        (let ts = findF SELECTORS_temperature (selectF SELECTORS_todayDetails page) page
         in if ts = [] then [] else [last ts]) page)))"
  by (simp_all add: fetchWeather_def Let_def split_def select_root_def first_sel_def last_sel_def
        doc_forms)

lemma rowOf_high_low:
  "DayRoundWeather.tempHigh (rowOf page el) =
     normalizeTemperature (concat (map textContent (nodesF (take 1
        (findF SELECTORS_temperature [el] page)) page)))"
  "DayRoundWeather.tempLow (rowOf page el) =
     normalizeTemperature (concat (map textContent (nodesF
        (let ts = findF SELECTORS_temperature [el] page
         in if ts = [] then [] else [last ts]) page)))"
  by (simp_all add: rowOf_def dayRow_def Let_def split_def first_sel_def last_sel_def doc_forms)

section \<open>Document order, ancestors and missing containers\<close>

subsection \<open>Document order\<close>

lemma docBefore_prefix: "docBefore (pp @ xs) (pp @ ys) = docBefore xs ys"
  by (induction pp) auto

lemma walk_shape:
  assumes "p \<in> fst ` set (walk A pp i k ns)"
  shows "\<exists>j q. p = pp @ (i + j) # q"
proof -
  from assms obtain e ancs where "(p, e, ancs) \<in> set (walk A pp i k ns)" by force
  from walk_node_at[OF this] show ?thesis by blast
qed

lemma sorted_wrt_map_filter:
  "sorted_wrt R (map f xs) \<Longrightarrow> sorted_wrt R (map f (filter P xs))"
  by (induction xs) auto

lemma walk_sorted: "sorted_wrt docBefore (map fst (walk A pp i k ns))"
proof (induction A pp i k ns rule: walk.induct)
  case (4 A pp i k t a ks ns)
  let ?kids = "map fst (walk ((pp @ [i], (t, a, Suc k)) # A) (pp @ [i]) 0 0 ks)"
  let ?rest = "map fst (walk A pp (Suc i) (Suc k) ns)"
  have kid_shape: "\<exists>j q. y = pp @ i # j # q" if "y \<in> set ?kids" for y
  proof -
    from that have "y \<in> fst ` set (walk ((pp @ [i], (t, a, Suc k)) # A) (pp @ [i]) 0 0 ks)"
      by simp
    from walk_shape[OF this] show ?thesis by simp
  qed
  have rest_shape: "\<exists>j q. y = pp @ (Suc i + j) # q" if "y \<in> set ?rest" for y
  proof -
    from that have "y \<in> fst ` set (walk A pp (Suc i) (Suc k) ns)" by simp
    from walk_shape[OF this] show ?thesis .
  qed
  have self_kids: "docBefore (pp @ [i]) y" if "y \<in> set ?kids" for y
  proof -
    from kid_shape[OF that] obtain j q where "y = pp @ i # j # q" by blast
    then show ?thesis by (simp add: docBefore_prefix)
  qed
  have self_rest: "docBefore (pp @ [i]) y" if "y \<in> set ?rest" for y
  proof -
    from rest_shape[OF that] obtain j q where "y = pp @ (Suc i + j) # q" by blast
    then show ?thesis by (simp add: docBefore_prefix)
  qed
  have kids_rest: "docBefore x y" if "x \<in> set ?kids" "y \<in> set ?rest" for x y
  proof -
    from kid_shape[OF that(1)] obtain j q where x: "x = pp @ i # j # q" by blast
    from rest_shape[OF that(2)] obtain j' q' where y: "y = pp @ (Suc i + j') # q'" by blast
    show ?thesis unfolding x y by (simp add: docBefore_prefix)
  qed
  have "map fst (walk A pp i k (Elem t a ks # ns)) = (pp @ [i]) # ?kids @ ?rest"
    by simp
  moreover have "sorted_wrt docBefore ((pp @ [i]) # ?kids @ ?rest)"
    unfolding sorted_wrt.simps sorted_wrt_append set_append
    using "4.IH" self_kids self_rest kids_rest by blast
  ultimately show ?case by simp
qed simp_all

lemma selectF_sorted: "sorted_wrt docBefore (selectF sel f)"
  unfolding selectF_def allElems_def by (rule sorted_wrt_map_filter) (rule walk_sorted)

lemma findF_sorted: "sorted_wrt docBefore (findF sel ctx f)"
  unfolding findF_def allElems_def by (rule sorted_wrt_map_filter) (rule walk_sorted)

subsection \<open>Nodes of a selection\<close>

lemma nodesF_map: "elemPaths ps f \<Longrightarrow> nodesF ps f = map (\<lambda>p. the (node_at f p)) ps"
  by (induction ps) (auto simp: elemPaths_def nodesF_Cons)

lemma nodesF_take:
  assumes "elemPaths ps f"
  shows "nodesF (take k ps) f = take k (nodesF ps f)"
proof -
  have "elemPaths (take k ps) f" using assms by (auto simp: elemPaths_def dest: in_set_takeD)
  then show ?thesis using assms by (simp add: nodesF_map take_map)
qed

lemma nodesF_last:
  assumes "elemPaths ps f" "ps \<noteq> []"
  shows "nodesF [last ps] f = [last (nodesF ps f)]"
proof -
  have "elemPaths [last ps] f" using assms by (auto simp: elemPaths_def)
  then show ?thesis using assms by (simp add: nodesF_map last_map)
qed

lemma first_last_text:
  assumes "elemPaths ts f"
  shows "normalizeTemperature (concat (map textContent (nodesF (take 1 ts) f))) =
           (if nodesF ts f = [] then None
            else normalizeTemperature (textContent (hd (nodesF ts f))))"
    and "normalizeTemperature (concat (map textContent
            (nodesF (if ts = [] then [] else [last ts]) f))) =
           (if nodesF ts f = [] then None
            else normalizeTemperature (textContent (last (nodesF ts f))))"
proof -
  have len: "length (nodesF ts f) = length ts" using elemPaths_nodesF[OF assms] by simp
  show "normalizeTemperature (concat (map textContent (nodesF (take 1 ts) f))) =
           (if nodesF ts f = [] then None
            else normalizeTemperature (textContent (hd (nodesF ts f))))"
  proof (cases "nodesF ts f")
    case Nil
    then show ?thesis by (simp add: nodesF_take[OF assms] normalizeTemperature_def)
  next
    case (Cons n ns)
    then show ?thesis by (simp add: nodesF_take[OF assms])
  qed
  show "normalizeTemperature (concat (map textContent
            (nodesF (if ts = [] then [] else [last ts]) f))) =
           (if nodesF ts f = [] then None
            else normalizeTemperature (textContent (last (nodesF ts f))))"
  proof (cases "ts = []")
    case True
    then show ?thesis by (simp add: normalizeTemperature_def)
  next
    case False
    then have "nodesF ts f \<noteq> []" using len by auto
    then show ?thesis using False by (simp add: nodesF_last[OF assms False])
  qed
qed

subsection \<open>Ancestors are elements\<close>

lemma walk_ancestors:
  "(p, e, ancs) \<in> set (walk A pp i k ns) \<Longrightarrow> x \<in> set ancs \<Longrightarrow>
     x \<in> set A \<or> (\<exists>ancs'. (fst x, snd x, ancs') \<in> set (walk A pp i k ns))"
proof (induction A pp i k ns arbitrary: p e ancs rule: walk.induct)
  case (4 A pp i k t a ks ns)
  let ?self = "(pp @ [i], (t, a, Suc k))"
  from "4.prems"(1) consider
      (self) "ancs = A"
    | (kid) "(p, e, ancs) \<in> set (walk (?self # A) (pp @ [i]) 0 0 ks)"
    | (rest) "(p, e, ancs) \<in> set (walk A pp (Suc i) (Suc k) ns)"
    by auto
  then show ?case
  proof cases
    case self
    then show ?thesis using "4.prems"(2) by simp
  next
    case kid
    from "4.IH"(1)[OF kid "4.prems"(2)] show ?thesis by auto
  next
    case rest
    from "4.IH"(2)[OF rest "4.prems"(2)] show ?thesis by auto
  qed
qed auto

lemma allElems_ancestors:
  assumes "(p, e, ancs) \<in> set (allElems f)" "x \<in> set ancs"
  shows "\<exists>ancs'. (fst x, snd x, ancs') \<in> set (allElems f)"
  using walk_ancestors[OF assms(1)[unfolded allElems_def] assms(2)] by (simp add: allElems_def)

lemma anyAncestor_Compound: "anyAncestor (Compound c) ps \<Longrightarrow> \<exists>e \<in> set ps. cmatch c e"
  by (induction ps) auto

lemma selectF_empty_iff:
  "selectF sel f = [] \<longleftrightarrow> (\<forall>(p, e, ancs) \<in> set (allElems f). \<not> matches sel e (map snd ancs))"
  by (auto simp: selectF_def filter_empty_conv)

lemma no_today_no_segment:
  assumes "selectF SELECTORS_today f = []"
  shows "selectF (segmentSelector n) f = []"
proof (rule ccontr)
  assume "selectF (segmentSelector n) f \<noteq> []"
  then obtain p e ancs where el: "(p, e, ancs) \<in> set (allElems f)"
    and m: "matches (segmentSelector n) e (map snd ancs)"
    by (auto simp: selectF_empty_iff)
  from m obtain q qs where A: "map snd ancs = q # qs"
    and any: "anyAncestor SELECTORS_today qs"
    by (cases "map snd ancs") (auto simp: segmentSelector_def)
  from any obtain e' where "e' \<in> set qs"
    and c: "cmatch [Attr ''id'' StartsWith (str ''WxuTodayWeatherCard-main-'')] e'"
    unfolding SELECTORS_today_def by (blast dest: anyAncestor_Compound)
  then have e': "e' \<in> set (map snd ancs)" using A by simp
  from e' obtain x where x: "x \<in> set ancs" "snd x = e'" by auto
  from allElems_ancestors[OF el x(1)] obtain ancs' where
    "(fst x, e', ancs') \<in> set (allElems f)" using x(2) by auto
  moreover have "matches SELECTORS_today e' (map snd ancs')"
    using c by (simp add: SELECTORS_today_def)
  ultimately show False using assms by (auto simp: selectF_empty_iff)
qed

lemma findF_no_context [simp]: "findF sel [] f = []"
  by (simp add: findF_def scopeAncs_def)

lemma isF_no_elements [simp]: "isF sel [] f = False"
  by (simp add: isF_def list_ex_iff)

lemma getSegmentData_no_today:
  assumes "selectF SELECTORS_today (document st) = []"
  shows "getSegmentData n st =
           (\<lparr>temp = None, condition = None, rain = None, active = False\<rparr>,
            st\<lparr>diags := diags st @
                 [SELECTORS_temperature, SELECTORS_condition, SELECTORS_chanceOfRain]\<rparr>)"
  using no_today_no_segment[OF assms, of n]
  by (simp add: getSegmentData_def getTemp_def getText_def getPercentage_def Let_def
        select_root_def doc_forms warn_def normalizeTemperature_def)

section \<open>Warnings\<close>

lemma isWhiteSpace_code [code]:
  "isWhiteSpace c =
     (let i = int c in
      i = 9 \<or> i = 10 \<or> i = 11 \<or> i = 12 \<or> i = 13 \<or> i = 32 \<or> i = 160 \<or> i = 5760 \<or>
      (8192 \<le> i \<and> i \<le> 8202) \<or> i = 8232 \<or> i = 8233 \<or> i = 8239 \<or> i = 8287 \<or>
      i = 12288 \<or> i = 65279)"
  by (simp add: isWhiteSpace_def Let_def)

lemma diags_getTemp:
  "diags (snd (getTemp s c st)) = diags st @ (if snd (query s c st) = [] then [s] else [])"
  by (simp add: getTemp_snd diags_getText)

lemma leaf_getText:
  "onlyLeafWarnings st \<Longrightarrow> s \<in> leafSelectors \<Longrightarrow> onlyLeafWarnings (snd (getText s c st))"
  by (auto simp: onlyLeafWarnings_def diags_getText)

lemma leaf_getTemp:
  "onlyLeafWarnings st \<Longrightarrow> s \<in> leafSelectors \<Longrightarrow> onlyLeafWarnings (snd (getTemp s c st))"
  by (auto simp: onlyLeafWarnings_def diags_getTemp)

lemma leaf_getPercentage:
  "onlyLeafWarnings st \<Longrightarrow> s \<in> leafSelectors \<Longrightarrow> onlyLeafWarnings (snd (getPercentage s c st))"
  by (auto simp: onlyLeafWarnings_def diags_getPercentage)

lemma leaf_getSegmentData: "onlyLeafWarnings st \<Longrightarrow> onlyLeafWarnings (snd (getSegmentData n st))"
  unfolding getSegmentData_def Let_def split_def snd_conv
  by (intro leaf_getPercentage leaf_getText leaf_getTemp) (simp_all add: leafSelectors_def)

lemma leaf_dayRow: "onlyLeafWarnings st \<Longrightarrow> onlyLeafWarnings (snd (dayRow r el st))"
  unfolding dayRow_def Let_def split_def snd_conv
  by (intro leaf_getPercentage leaf_getText leaf_getTemp) (simp_all add: leafSelectors_def)

lemma leaf_eachDay: "onlyLeafWarnings st \<Longrightarrow> onlyLeafWarnings (snd (eachDay r els st))"
  by (induction els arbitrary: st) (simp_all add: split_def Let_def leaf_dayRow)

lemma leaf_initial: "onlyLeafWarnings (initial page)"
  by (simp add: onlyLeafWarnings_def initial_def)

lemma fetchWeather_only_leaf_warnings: "set (diags (snd (fetchWeather page))) \<subseteq> leafSelectors"
proof -
  have "onlyLeafWarnings (snd (fetchWeather page))"
    unfolding fetchWeather_def Let_def split_def snd_conv
    by (intro leaf_eachDay leaf_getSegmentData leaf_getPercentage leaf_getText leaf_getTemp
          leaf_initial) (simp_all add: leafSelectors_def)
  then show ?thesis by (simp add: onlyLeafWarnings_def)
qed

lemmas selector_defs = SELECTORS_followingDays_def SELECTORS_today_def SELECTORS_todayDetails_def
  SELECTORS_currentTemp_def SELECTORS_currentCondition_def SELECTORS_chanceOfRain_def
  SELECTORS_condition_def SELECTORS_temperature_def SELECTORS_wind_def SELECTORS_percentage_def
  SELECTORS_uvIndex_def SELECTORS_periodOfDay_def SELECTORS_time_def h3_span_def attr_is_def
  class_has_def

lemma containers_not_leaf:
  "SELECTORS_followingDays \<notin> leafSelectors" "SELECTORS_todayDetails \<notin> leafSelectors"
  "SELECTORS_today \<notin> leafSelectors" "segmentSelector n \<notin> leafSelectors"
  by (simp_all add: leafSelectors_def selector_defs segmentSelector_def str_def)

section \<open>Example pages\<close>

lemmas page_defs = htmlDoc_def emptyPage_def twoActivePage_def segmentItem_def elt_def tx_def
  temperatureValue_def str_def degree_def leafPage_def rainChance_def wrappedLeafPage_def
  wrappedRainChance_def fiveRowsPage_def dayItem_def detailsPage_def blankTemperaturePage_def

section \<open>Temperatures\<close>

text \<open>
  C2, as the code has it. \<open>normalizeTemperature\<close> returns \<^verbatim>\<open>null\<close> for the empty string
  and for no other input. On every other string it removes the first degree glyph,
  wherever it stands, and returns what \<^verbatim>\<open>parseInt\<close> in base 10 reads in the rest.
  What that is, is stated for every string, since every string is made of leading white
  space, an optional sign, a longest run of digits and a rest: the run of digits is read
  and the rest is ignored; with no digit
  the result is NaN, not \<^verbatim>\<open>null\<close>, as it is for a white-space-only string and for the
  lone glyph; with digits it is their decimal value with the sign, which is exact below
  \<open>2^53\<close>, the nearest double beyond (ties to the even significand), an infinity from
  \<open>2^1024\<close> on, and negative zero for \<^verbatim>\<open>-0\<close>. So \<^verbatim>\<open>"72\<degree>"\<close> gives 72 and
  \<^verbatim>\<open>"9007199254740993\<degree>"\<close> gives 9007199254740992. The function is total: it never
  raises. \<^verbatim>\<open>getTemp\<close>, which passes on the trimmed text of a lookup, does return
  \<^verbatim>\<open>null\<close> when that text is blank.
\<close>

theorem normalizeTemperature_null_only_empty:
  "(normalizeTemperature t = None \<longleftrightarrow> t = []) \<and>
   (t \<noteq> [] \<longrightarrow> normalizeTemperature t = Some (parseInt10 (replace degree [] t))) \<and>
   (176 \<notin> set t \<longrightarrow> replace degree [] t = t) \<and>
   (176 \<notin> set a \<longrightarrow> replace degree [] (a @ degree @ b) = a @ b) \<and>
   (list_all isWhiteSpace w \<and> (sg = [] \<or> sg = [43] \<or> sg = [45]) \<and> list_all isDigit ds \<and>
    (r = [] \<or> \<not> isDigit (hd r)) \<and>
    (sg = [] \<and> ds = [] \<longrightarrow>
       r = [] \<or> (\<not> isWhiteSpace (hd r) \<and> hd r \<noteq> 43 \<and> hd r \<noteq> 45)) \<longrightarrow>
      parseInt10 (w @ sg @ ds @ r) =
        (if ds = [] then NaN else toNumber (sg = [45]) (digitsValue ds))) \<and>
   (\<exists>w sg ds r. t = w @ sg @ ds @ r \<and> list_all isWhiteSpace w \<and>
      (sg = [] \<or> sg = [43] \<or> sg = [45]) \<and> list_all isDigit ds \<and>
      (r = [] \<or> \<not> isDigit (hd r)) \<and>
      (sg = [] \<and> ds = [] \<longrightarrow>
         r = [] \<or> (\<not> isWhiteSpace (hd r) \<and> hd r \<noteq> 43 \<and> hd r \<noteq> 45))) \<and>
   digitsValue [] = 0 \<and>
   digitsValue (es @ [d]) = 10 * digitsValue es + (d - 48) \<and>
   toNumber False 0 = Num 0 \<and> toNumber True 0 = NegZero \<and>
   (0 < n \<and> n < 2 ^ 53 \<longrightarrow> toNumber False n = Num (int n) \<and> toNumber True n = Num (- int n)) \<and>
   (2 ^ 53 \<le> n \<and> roundToDouble n < 2 ^ 1024 \<longrightarrow>
      toNumber False n = Num (int (roundToDouble n)) \<and>
      toNumber True n = Num (- int (roundToDouble n))) \<and>
   (2 ^ 1024 \<le> n \<longrightarrow> toNumber False n = PosInfinity \<and> toNumber True n = NegInfinity) \<and>
   (n \<noteq> 0 \<longrightarrow> 2 ^ (bitLength n - 1) \<le> n \<and> n < 2 ^ bitLength n) \<and>
   (2 ^ 53 \<le> n \<longrightarrow>
      (\<exists>k. 2 ^ 52 \<le> k \<and> k \<le> 2 ^ 53 \<and> roundToDouble n = k * 2 ^ (bitLength n - 53)) \<and>
      2 * (roundToDouble n - n) \<le> 2 ^ (bitLength n - 53) \<and>
      2 * (n - roundToDouble n) \<le> 2 ^ (bitLength n - 53) \<and>
      (2 * (n mod 2 ^ (bitLength n - 53)) = 2 ^ (bitLength n - 53) \<longrightarrow>
         even (roundToDouble n div 2 ^ (bitLength n - 53)))) \<and>
   normalizeTemperature (str ''72'' @ degree) = Some (Num 72) \<and>
   normalizeTemperature (str ''9007199254740993'' @ degree) = Some (Num 9007199254740992) \<and>
   normalizeTemperature degree = Some NaN \<and>
   (t \<noteq> [] \<and> list_all isWhiteSpace t \<longrightarrow> normalizeTemperature t = Some NaN) \<and>
   (list_all isWhiteSpace (text_sel (query s c st) st) \<longrightarrow> fst (getTemp s c st) = None)"
proof -
  have c1: "normalizeTemperature t = None \<longleftrightarrow> t = []"
    by (simp add: normalizeTemperature_def)
  have c2: "t \<noteq> [] \<longrightarrow> normalizeTemperature t = Some (parseInt10 (replace degree [] t))"
    by (simp add: normalizeTemperature_def)
  have c3: "176 \<notin> set t \<longrightarrow> replace degree [] t = t"
    by (simp add: degree_def replace_absent)
  have c4: "176 \<notin> set a \<longrightarrow> replace degree [] (a @ degree @ b) = a @ b"
    by (simp add: replace_first_degree)
  have c5: "list_all isWhiteSpace w \<and> (sg = [] \<or> sg = [43] \<or> sg = [45]) \<and> list_all isDigit ds \<and>
    (r = [] \<or> \<not> isDigit (hd r)) \<and>
    (sg = [] \<and> ds = [] \<longrightarrow>
       r = [] \<or> (\<not> isWhiteSpace (hd r) \<and> hd r \<noteq> 43 \<and> hd r \<noteq> 45)) \<longrightarrow>
      parseInt10 (w @ sg @ ds @ r) =
        (if ds = [] then NaN else toNumber (sg = [45]) (digitsValue ds))"
    using parseInt10_parts[of w sg ds r] by blast
  have c6: "digitsValue [] = 0" by (simp add: digitsValue_def)
  have c7: "digitsValue (es @ [d]) = 10 * digitsValue es + (d - 48)" by (rule digitsValue_snoc)
  have c8: "toNumber False 0 = Num 0 \<and> toNumber True 0 = NegZero" by (simp add: toNumber_zero)
  have c9: "0 < n \<and> n < 2 ^ 53 \<longrightarrow> toNumber False n = Num (int n) \<and> toNumber True n = Num (- int n)"
    using toNumber_small[of n] by blast
  have c10: "2 ^ 53 \<le> n \<and> roundToDouble n < 2 ^ 1024 \<longrightarrow>
      toNumber False n = Num (int (roundToDouble n)) \<and>
      toNumber True n = Num (- int (roundToDouble n))"
    using toNumber_rounded[of n] by blast
  have c11: "2 ^ 1024 \<le> n \<longrightarrow> toNumber False n = PosInfinity \<and> toNumber True n = NegInfinity"
    using toNumber_huge[of n] by blast
  have c12: "n \<noteq> 0 \<longrightarrow> 2 ^ (bitLength n - 1) \<le> n \<and> n < 2 ^ bitLength n"
    using bitLength_bounds[of n] by blast
  have c13: "2 ^ 53 \<le> n \<longrightarrow>
      (\<exists>k. 2 ^ 52 \<le> k \<and> k \<le> 2 ^ 53 \<and> roundToDouble n = k * 2 ^ (bitLength n - 53)) \<and>
      2 * (roundToDouble n - n) \<le> 2 ^ (bitLength n - 53) \<and>
      2 * (n - roundToDouble n) \<le> 2 ^ (bitLength n - 53) \<and>
      (2 * (n mod 2 ^ (bitLength n - 53)) = 2 ^ (bitLength n - 53) \<longrightarrow>
         even (roundToDouble n div 2 ^ (bitLength n - 53)))"
    using roundToDouble_grid(1-4)[of n] by blast
  have c14: "normalizeTemperature (str ''72'' @ degree) = Some (Num 72)"
    by (simp add: normalizeTemperature_def str_def degree_def parseInt10_def isWhiteSpace_def
        isDigit_def digitsValue_def toNumber_small)
  have c15: "normalizeTemperature (str ''9007199254740993'' @ degree) =
               Some (Num 9007199254740992)"
  proof -
    have dg: "list_all isDigit (str ''9007199254740993'')" by (simp add: str_def isDigit_def)
    have ne: "str ''9007199254740993'' \<noteq> []" by (simp add: str_def)
    have v: "digitsValue (str ''9007199254740993'') = 9007199254740993"
      by (simp add: digitsValue_def str_def)
    have "toNumber False 9007199254740993 = Num 9007199254740992"
      by (simp add: toNumber_def round_examples)
    then show ?thesis
      using replace_degree_digits[OF dg, of "[]"] parseInt10_digits[OF dg ne, of "[]"] ne
      by (simp add: normalizeTemperature_def v)
  qed
  have c16: "normalizeTemperature degree = Some NaN"
    by (simp add: normalizeTemperature_def degree_def parseInt10_def)
  have c17: "t \<noteq> [] \<and> list_all isWhiteSpace t \<longrightarrow> normalizeTemperature t = Some NaN"
  proof (intro impI, elim conjE)
    assume ne: "t \<noteq> []" and ws: "list_all isWhiteSpace t"
    have "176 \<notin> set t" using ws not_ws_degree by (auto simp: list_all_iff)
    then have "replace degree [] t = t" by (simp add: degree_def replace_absent)
    then show "normalizeTemperature t = Some NaN"
      using ne ws by (simp add: normalizeTemperature_def parseInt10_blank)
  qed
  have c18: "list_all isWhiteSpace (text_sel (query s c st) st) \<longrightarrow> fst (getTemp s c st) = None"
  proof
    assume "list_all isWhiteSpace (text_sel (query s c st) st)"
    then have "trim (text_sel (query s c st) st) = []" by (rule trim_blank)
    then show "fst (getTemp s c st) = None"
      by (simp add: getTemp_fst getText_fst normalizeTemperature_def)
  qed
  show ?thesis
    by (intro conjI c1 c2 c3 c4 c5 parseInt10_decompose c6 c7 c8[THEN conjunct1]
          c8[THEN conjunct2] c9 c10 c11 c12 c13 c14 c15 c16 c17 c18)
qed

lemma blankTemperaturePage_text:
  "text_sel (query SELECTORS_temperature None (initial blankTemperaturePage))
            (initial blankTemperaturePage) = [32]"
  by code_simp

text \<open>
  The theorem at concrete strings: a space and a tab; the letters \<^verbatim>\<open>abc\<close>;
  \<^verbatim>\<open>" 85\<degree>F"\<close>, read through the parts of the theorem; \<^verbatim>\<open>"\<degree>-0"\<close>; the rounding of
  \<open>2^53 + 3\<close>; the first integer that is infinite; and a page whose temperature node
  holds one space.
\<close>

theorem normalizeTemperature_null_only_empty_witness:
  "normalizeTemperature [32, 9] = Some NaN \<and>
   normalizeTemperature (str ''abc'') = Some NaN \<and>
   normalizeTemperature (str '' 85'' @ degree @ str ''F'') = Some (Num 85) \<and>
   normalizeTemperature (degree @ str ''-0'') = Some NegZero \<and>
   toNumber False 9007199254740995 = Num 9007199254740996 \<and>
   toNumber True (2 ^ 1024) = NegInfinity \<and>
   fst (getTemp SELECTORS_temperature None (initial blankTemperaturePage)) = None"
proof -
  have w1: "normalizeTemperature [32, 9] = Some NaN"
  proof -
    have ws: "[32, 9] \<noteq> [] \<and> list_all isWhiteSpace [32, 9]" by (simp add: isWhiteSpace_def)
    show ?thesis
      using normalizeTemperature_null_only_empty [where t = "[32, 9]"] ws by blast
  qed
  have w2: "normalizeTemperature (str ''abc'') = Some NaN"
  proof -
    have t: "str ''abc'' \<noteq> []" "176 \<notin> set (str ''abc'')" by (simp_all add: str_def)
    have p: "list_all isWhiteSpace [] \<and> ([] = [] \<or> [] = [43] \<or> [] = [45]) \<and> list_all isDigit [] \<and>
        (str ''abc'' = [] \<or> \<not> isDigit (hd (str ''abc''))) \<and>
        ([] = [] \<and> [] = [] \<longrightarrow> str ''abc'' = [] \<or>
           (\<not> isWhiteSpace (hd (str ''abc'')) \<and> hd (str ''abc'') \<noteq> 43 \<and> hd (str ''abc'') \<noteq> 45))"
      by (simp add: str_def isDigit_def isWhiteSpace_def)
    show ?thesis
      using normalizeTemperature_null_only_empty
              [where t = "str ''abc''" and w = "[]" and sg = "[]" and ds = "[]" and r = "str ''abc''"]
        t p
      by simp
  qed
  have w3: "normalizeTemperature (str '' 85'' @ degree @ str ''F'') = Some (Num 85)"
  proof -
    have t: "str '' 85'' @ degree @ str ''F'' \<noteq> []" "176 \<notin> set (str '' 85'')"
      by (simp_all add: str_def)
    have sp: "str '' 85'' @ str ''F'' = [32] @ [] @ str ''85'' @ str ''F''"
      by (simp add: str_def)
    have p: "list_all isWhiteSpace [32] \<and> ([] = [] \<or> [] = [43] \<or> [] = [45]) \<and>
        list_all isDigit (str ''85'') \<and>
        (str ''F'' = [] \<or> \<not> isDigit (hd (str ''F''))) \<and>
        ([] = [] \<and> str ''85'' = [] \<longrightarrow> str ''F'' = [] \<or>
           (\<not> isWhiteSpace (hd (str ''F'')) \<and> hd (str ''F'') \<noteq> 43 \<and> hd (str ''F'') \<noteq> 45))"
      by (simp add: str_def isDigit_def isWhiteSpace_def)
    have v: "digitsValue (str ''85'') = 85" "str ''85'' \<noteq> []"
      by (simp_all add: digitsValue_def str_def)
    show ?thesis
      using normalizeTemperature_null_only_empty
              [where t = "str '' 85'' @ degree @ str ''F''" and a = "str '' 85''" and b = "str ''F''"
                 and w = "[32]" and sg = "[]" and ds = "str ''85''" and r = "str ''F''" and n = 85]
        t p
      by (simp add: sp v)
  qed
  have w4: "normalizeTemperature (degree @ str ''-0'') = Some NegZero"
  proof -
    have t: "degree @ str ''-0'' \<noteq> []" by (simp add: str_def)
    have sp: "str ''-0'' = [] @ [45] @ str ''0'' @ []" by (simp add: str_def)
    have p: "list_all isWhiteSpace [] \<and> ([45] = [] \<or> [45] = [43] \<or> [45] = [45::nat]) \<and>
        list_all isDigit (str ''0'') \<and> ([] = [] \<or> \<not> isDigit (hd [])) \<and>
        ([45::nat] = [] \<and> str ''0'' = [] \<longrightarrow> [] = [] \<or>
           (\<not> isWhiteSpace (hd []) \<and> hd [] \<noteq> 43 \<and> hd [] \<noteq> 45))"
      by (simp add: str_def isDigit_def)
    have v: "digitsValue (str ''0'') = 0" "str ''0'' \<noteq> []"
      by (simp_all add: digitsValue_def str_def)
    have "parseInt10 ([] @ [45] @ str ''0'' @ []) = NegZero"
      using normalizeTemperature_null_only_empty
              [where w = "[]" and sg = "[45]" and ds = "str ''0''" and r = "[]"] p
      by (simp add: v del: append_Nil append_Nil2 append_Cons)
    then have "parseInt10 (str ''-0'') = NegZero" unfolding sp[symmetric] .
    then show ?thesis
      using normalizeTemperature_null_only_empty
              [where t = "degree @ str ''-0''" and a = "[]" and b = "str ''-0''"] t
      by simp
  qed
  have w5: "toNumber False 9007199254740995 = Num 9007199254740996"
    using normalizeTemperature_null_only_empty [where n = 9007199254740995]
    by (simp add: round_examples)
  have bl: "list_all isWhiteSpace (text_sel (query SELECTORS_temperature None
              (initial blankTemperaturePage)) (initial blankTemperaturePage))"
    by (simp add: blankTemperaturePage_text isWhiteSpace_def)
  have w6: "fst (getTemp SELECTORS_temperature None (initial blankTemperaturePage)) = None"
    using normalizeTemperature_null_only_empty
            [where s = SELECTORS_temperature and c = None and st = "initial blankTemperaturePage"] bl
    by simp
  have w7: "toNumber True (2 ^ 1024) = NegInfinity"
    using normalizeTemperature_null_only_empty [where n = "2 ^ 1024"] by blast
  from w1 w2 w3 w4 w5 w6 w7 show ?thesis by blast
qed

text \<open>
  C2 as the specification states it fails: a single space, the lone degree glyph and
  the residue \<^verbatim>\<open>n/a\<close> do not normalize to \<^verbatim>\<open>null\<close> but to NaN.
\<close>

theorem normalizeTemperature_blank_counterexample:
  "normalizeTemperature [32] = Some NaN \<and> normalizeTemperature degree = Some NaN \<and>
   normalizeTemperature (str ''n/a'' @ degree) = Some NaN"
  by (simp add: normalizeTemperature_def str_def degree_def parseInt10_def isWhiteSpace_def
      isDigit_def)

section \<open>The active segment\<close>

lemma segment_active:
  "active (segmentOf page n) = isF SELECTORS_periodOfDay (selectF (segmentSelector n) page) page"
  by (simp add: segmentOf_def getSegmentData_def Let_def split_def select_root_def doc_forms)

lemma twoActive_isF:
  "\<not> isF SELECTORS_periodOfDay (selectF (segmentSelector 1) twoActivePage) twoActivePage \<and>
   isF SELECTORS_periodOfDay (selectF (segmentSelector 2) twoActivePage) twoActivePage \<and>
   isF SELECTORS_periodOfDay (selectF (segmentSelector 3) twoActivePage) twoActivePage \<and>
   \<not> isF SELECTORS_periodOfDay (selectF (segmentSelector 4) twoActivePage) twoActivePage"
  by code_simp

lemma twoActive_flags:
  "\<not> active (segmentOf twoActivePage 1) \<and> active (segmentOf twoActivePage 2) \<and>
   active (segmentOf twoActivePage 3) \<and> \<not> active (segmentOf twoActivePage 4)"
  using twoActive_isF by (simp add: segment_active)

lemma all_segmentName:
  "(\<forall>s. P s) \<longleftrightarrow> P morning \<and> P afternoon \<and> P evening \<and> P overnight"
  by (metis segmentName.exhaust)

lemma label_inj: "label s = label s' \<Longrightarrow> s = s'"
  by (cases s; cases s'; simp add: str_def)

lemma firstActive_Some:
  "firstActive f1 f2 f3 f4 = Some s \<longleftrightarrow>
     (s = morning \<and> f1) \<or> (s = afternoon \<and> \<not> f1 \<and> f2) \<or>
     (s = evening \<and> \<not> f1 \<and> \<not> f2 \<and> f3) \<or>
     (s = overnight \<and> \<not> f1 \<and> \<not> f2 \<and> \<not> f3 \<and> f4)"
  by (cases s) (auto simp: firstActive_def)

lemma firstActive_None:
  "firstActive f1 f2 f3 f4 = None \<longleftrightarrow> \<not> f1 \<and> \<not> f2 \<and> \<not> f3 \<and> \<not> f4"
  by (auto simp: firstActive_def)

lemma fetchWeather_stage_first:
  "currentDayStage (today (fst (fetchWeather page))) =
     map_option label (firstActive (active (segmentOf page 1)) (active (segmentOf page 2))
                                   (active (segmentOf page 3)) (active (segmentOf page 4)))"
  by (simp add: fetchWeather_stage dayStage_def firstActive_def)

text \<open>
  C3. Whatever the four active flags are, the stage is the label of the first segment,
  in the order morning, afternoon, evening, overnight, whose flag is set, and
  \<^verbatim>\<open>null\<close> when no flag is set; \<^verbatim>\<open>fetchWeather\<close> reports the stage so computed from the
  flags of the four segments it read. Flags false, true, true, false give afternoon.
\<close>

theorem dayStage_first_active:
  "dayStage mo af ev ov =
     map_option label (firstActive (active mo) (active af) (active ev) (active ov)) \<and>
   currentDayStage (today (fst (fetchWeather page))) =
     map_option label (firstActive (active (segmentOf page 1)) (active (segmentOf page 2))
                                   (active (segmentOf page 3)) (active (segmentOf page 4))) \<and>
   firstActive False True True False = Some afternoon \<and>
   firstActive False False False False = None"
proof -
  have a: "dayStage m1 m2 m3 m4 =
     map_option label (firstActive (active m1) (active m2) (active m3) (active m4))"
    for m1 m2 m3 m4
    by (simp add: dayStage_def firstActive_def)
  show ?thesis
    by (simp add: a fetchWeather_stage) (simp add: firstActive_def)
qed

text \<open>
  The theorem on the page whose second and third segments are active.
\<close>

theorem dayStage_first_active_witness:
  "currentDayStage (today (fst (fetchWeather twoActivePage))) = Some (str ''Afternoon'')"
  using dayStage_first_active [of "segmentOf twoActivePage 1" "segmentOf twoActivePage 2"
      "segmentOf twoActivePage 3" "segmentOf twoActivePage 4" twoActivePage]
    twoActive_flags
  by simp

text \<open>
  C4, as the code has it. The stage that \<^verbatim>\<open>fetchWeather\<close> reports is \<^verbatim>\<open>null\<close> or the
  label of a segment. When it is the label of a segment, that segment's flag is set and
  the flag of no earlier segment is; it is \<^verbatim>\<open>null\<close> exactly when no flag is set.
  Nothing limits the number of segments whose flag is set.
\<close>

theorem stage_names_first_active_segment:
  "(currentDayStage (today (fst (fetchWeather page))) = Some (label s) \<longrightarrow>
      active (segmentOf page (position s)) \<and>
      (\<forall>s'. position s' < position s \<longrightarrow> \<not> active (segmentOf page (position s')))) \<and>
   (currentDayStage (today (fst (fetchWeather page))) = None \<longleftrightarrow>
      (\<forall>s'. \<not> active (segmentOf page (position s')))) \<and>
   (\<exists>r. currentDayStage (today (fst (fetchWeather page))) = map_option label r)"
proof -
  let ?st = "currentDayStage (today (fst (fetchWeather page)))"
  let ?r = "firstActive (active (segmentOf page 1)) (active (segmentOf page 2))
                        (active (segmentOf page 3)) (active (segmentOf page 4))"
  have st: "?st = map_option label ?r" by (rule fetchWeather_stage_first)
  have a: "?st = Some (label s) \<longrightarrow>
      active (segmentOf page (position s)) \<and>
      (\<forall>s'. position s' < position s \<longrightarrow> \<not> active (segmentOf page (position s')))"
  proof
    assume "?st = Some (label s)"
    then obtain s0 where "?r = Some s0" "label s0 = label s" unfolding st by auto
    then have "?r = Some s" using label_inj by blast
    then show "active (segmentOf page (position s)) \<and>
      (\<forall>s'. position s' < position s \<longrightarrow> \<not> active (segmentOf page (position s')))"
      unfolding firstActive_Some all_segmentName by auto
  qed
  have b: "?st = None \<longleftrightarrow> (\<forall>s'. \<not> active (segmentOf page (position s')))"
    unfolding st all_segmentName by (simp add: firstActive_None)
  have c: "\<exists>r. ?st = map_option label r" using st by blast
  from a b c show ?thesis by blast
qed

text \<open>
  The theorem on the page whose second and third segments are active.
\<close>

theorem stage_names_first_active_segment_witness:
  "currentDayStage (today (fst (fetchWeather twoActivePage))) = Some (label afternoon) \<and>
   active (segmentOf twoActivePage 2) \<and> \<not> active (segmentOf twoActivePage 1)"
proof -
  have "currentDayStage (today (fst (fetchWeather twoActivePage))) = Some (label afternoon)"
    using twoActive_flags by (simp add: fetchWeather_stage dayStage_def)
  then show ?thesis
    using stage_names_first_active_segment [of twoActivePage afternoon]
    by (simp add: all_segmentName)
qed

text \<open>
  C4 as the specification states it fails: on that page the segments read by
  \<^verbatim>\<open>getSegmentData\<close> for the afternoon and for the evening are both active.
\<close>

theorem two_active_segments_counterexample:
  "active (fst (getSegmentData 2 (initial twoActivePage))) \<and>
   active (fst (getSegmentData 3 (initial twoActivePage)))"
  using twoActive_flags by (simp add: segmentOf_def)

section \<open>The outlook rows\<close>

lemma fetchWeather_next_length:
  "length (next (fst (fetchWeather page))) = length (selectF SELECTORS_followingDays page) - 1"
  by (simp add: fetchWeather_next)

lemma eachDay_cli_length: "length (fst (eachDay_cli r els st)) = length els"
  by (induction els arbitrary: st) (simp_all add: split_def Let_def)

lemma getWeather_next_length:
  "length (fst (getWeather_next st)) =
     min 2 (length (selectF SELECTORS_followingDays (document st)) - 1)"
  by (simp add: getWeather_next_def Let_def slice_sel_def select_root_def eachDay_cli_length)

lemma fiveRows_rows:
  "selectF SELECTORS_followingDays fiveRowsPage =
     [ [0, Suc 0, 0, 0, 0], [0, Suc 0, 0, 0, Suc 0], [0, Suc 0, 0, 0, 2], [0, Suc 0, 0, 0, 3],
      [0, Suc 0, 0, 0, 4] ]"
  by code_simp

lemma fiveRows_dates:
  "map (\<lambda>el. DayRoundWeather.date (rowOf fiveRowsPage el))
       [ [0, Suc 0, 0, 0, Suc 0], [0, Suc 0, 0, 0, 2], [0, Suc 0, 0, 0, 3], [0, Suc 0, 0, 0, 4] ] =
     [Some (str ''Tue 04''), Some (str ''Wed 05''), Some (str ''Thu 06''), Some (str ''Fri 07'')]"
  by code_simp

text \<open>
  C5. \<^verbatim>\<open>fetchWeather\<close> on a page with five rows: the first row is skipped and all
  four others are returned, not two. (\<open>fetchWeather_next_length\<close>: on every page the
  outlook has one entry for each row but the first.)
\<close>

theorem fetchWeather_outlook_unbounded:
  "length (selectF SELECTORS_followingDays fiveRowsPage) = 5 \<and>
   length (next (fst (fetchWeather fiveRowsPage))) = 4 \<and>
   map DayRoundWeather.date (next (fst (fetchWeather fiveRowsPage))) =
     [Some (str ''Tue 04''), Some (str ''Wed 05''), Some (str ''Thu 06''), Some (str ''Fri 07'')]"
  using fiveRows_dates by (simp add: fetchWeather_next fiveRows_rows)

text \<open>
  The command-line program keeps two rows of the same page.
\<close>

lemma getWeather_outlook_two:
  "length (fst (getWeather_next (initial fiveRowsPage))) = 2"
  by (simp add: getWeather_next_length fiveRows_rows)

section \<open>Leaf text\<close>

text \<open>
  C6. When the selector matches, \<^verbatim>\<open>getPercentage\<close> returns the trimmed leaf text of
  the matched nodes: what is left of the text of their copies once the child elements
  of the copies are removed with their subtrees (the texts of several matched nodes
  are concatenated before trimming). The document is the same afterwards, no warning
  is written, and the copies made earlier are untouched.
\<close>

theorem getPercentage_leaf_text:
  "snd (query sel ctx st) \<noteq> [] \<Longrightarrow>
     fst (getPercentage sel ctx st) =
       Some (trim (concat (map ownText (nodes_of (query sel ctx st) st)))) \<and>
     document (snd (getPercentage sel ctx st)) = document st \<and>
     diags (snd (getPercentage sel ctx st)) = diags st \<and>
     take (length (fragments st)) (fragments (snd (getPercentage sel ctx st))) = fragments st"
  by (simp add: getPercentage_fst getPercentage_snd)

lemma leafPage_match:
  "snd (query SELECTORS_chanceOfRain None (initial leafPage)) \<noteq> []"
  "nodes_of (query SELECTORS_chanceOfRain None (initial leafPage)) (initial leafPage) = [rainChance]"
  by code_simp+

lemma rainChance_ownText: "trim (ownText rainChance) = str ''20%''"
  by (simp add: page_defs trim_def isWhiteSpace_def)

text \<open>
  The theorem on a node with an icon and a hidden label before the text \<^verbatim>\<open>20%\<close>.
\<close>

theorem getPercentage_leaf_text_witness:
  "fst (getPercentage SELECTORS_chanceOfRain None (initial leafPage)) = Some (str ''20%'') \<and>
   document (snd (getPercentage SELECTORS_chanceOfRain None (initial leafPage))) = leafPage"
  using getPercentage_leaf_text [of SELECTORS_chanceOfRain None "initial leafPage"]
  by (simp add: leafPage_match rainChance_ownText)

text \<open>
  Removal does change a document when it is applied to the matched node itself rather
  than to a copy.
\<close>

lemma remove_without_clone_changes_document:
  "document (remove_sel (children_sel (query SELECTORS_chanceOfRain None (initial leafPage))
                                      (initial leafPage)) (initial leafPage)) =
     htmlDoc [elt ''div'' [(''class'', ''Column--precip--Yv6V4'')] [tx ''20%''] ]"
  by code_simp

text \<open>
  C10. \<^verbatim>\<open>getPercentage\<close> returns \<^verbatim>\<open>null\<close> exactly when the selector matches no
  node. When it matches and the trimmed leaf text is empty, the result is the empty
  string.
\<close>

theorem getPercentage_null_iff_no_match:
  "(fst (getPercentage sel ctx st) = None \<longleftrightarrow> snd (query sel ctx st) = []) \<and>
   (snd (query sel ctx st) \<noteq> [] \<and>
    trim (concat (map ownText (nodes_of (query sel ctx st) st))) = [] \<longrightarrow>
      fst (getPercentage sel ctx st) = Some [])"
  by (simp add: getPercentage_fst)

lemma wrappedLeafPage_match:
  "snd (query SELECTORS_chanceOfRain None (initial wrappedLeafPage)) \<noteq> []"
  "nodes_of (query SELECTORS_chanceOfRain None (initial wrappedLeafPage)) (initial wrappedLeafPage) =
     [wrappedRainChance]"
  by code_simp+

lemma wrappedRainChance_ownText: "trim (ownText wrappedRainChance) = []"
  by (simp add: page_defs trim_def)

lemma emptyPage_no_match:
  "snd (query SELECTORS_chanceOfRain None (initial emptyPage)) = []"
  "snd (query SELECTORS_wind None (initial emptyPage)) = []"
  "selectF SELECTORS_followingDays emptyPage = []"
  "selectF SELECTORS_todayDetails emptyPage = []"
  by code_simp+

text \<open>
  The theorem on a node all of whose text is inside a child element, and on the
  page with an empty body.
\<close>

theorem getPercentage_null_iff_no_match_witness:
  "fst (getPercentage SELECTORS_chanceOfRain None (initial wrappedLeafPage)) = Some [] \<and>
   fst (getPercentage SELECTORS_chanceOfRain None (initial emptyPage)) = None"
  using getPercentage_null_iff_no_match [of SELECTORS_chanceOfRain None "initial wrappedLeafPage"]
    getPercentage_null_iff_no_match [of SELECTORS_chanceOfRain None "initial emptyPage"]
  by (simp add: wrappedLeafPage_match wrappedRainChance_ownText emptyPage_no_match)

section \<open>Missing selectors\<close>

lemma diags_initial [simp]: "diags (initial page) = []"
  by (simp add: initial_def)

lemma diags_getSegmentData:
  "diags (snd (getSegmentData n st)) = diags st @ segmentWarnings (document st) n"
  by (simp add: getSegmentData_def Let_def split_def select_root_def segmentWarnings_def
        diags_getTemp diags_getText diags_getPercentage missed_def doc_forms)

lemma diags_dayRow:
  "diags (snd (dayRow Doc el st)) = diags st @ rowWarnings (document st) el"
  by (simp add: dayRow_def Let_def split_def rowWarnings_def
        diags_getText diags_getPercentage missed_def doc_forms)

lemma diags_eachDay:
  "diags (snd (eachDay Doc els st)) = diags st @ concat (map (rowWarnings (document st)) els)"
  by (induction els arbitrary: st) (simp_all add: split_def Let_def diags_dayRow)

lemma diags_current:
  "diags (snd (getPercentage SELECTORS_percentage (Some (Doc, selectF SELECTORS_todayDetails page))
     (snd (getText SELECTORS_wind (Some (Doc, selectF SELECTORS_todayDetails page))
     (snd (getText SELECTORS_uvIndex (Some (Doc, selectF SELECTORS_todayDetails page))
     (snd (getText SELECTORS_time None
     (snd (getText SELECTORS_currentCondition None
     (snd (getTemp SELECTORS_temperature (Some (Doc, selectF SELECTORS_todayDetails page))
     (snd (getTemp SELECTORS_currentTemp None (initial page)))))))))))))))
   = currentWarnings page"
  by (simp add: currentWarnings_def Let_def
        diags_getTemp diags_getText diags_getPercentage missed_def doc_forms)

lemma diags_fetchWeather:
  "diags (snd (fetchWeather page)) =
     currentWarnings page @ concat (map (segmentWarnings page) [1, 2, 3, 4]) @
     concat (map (rowWarnings page) (drop 1 (selectF SELECTORS_followingDays page)))"
  unfolding fetchWeather_def Let_def split_def snd_conv
  by (simp add: slice_from_def select_root_def diags_eachDay diags_getSegmentData diags_current)

lemma high_low_none:
  "findF SELECTORS_temperature (selectF SELECTORS_todayDetails page) page = [] \<Longrightarrow>
     DayWeather.tempHigh (today (fst (fetchWeather page))) = None \<and>
     DayWeather.tempLow (today (fst (fetchWeather page))) = None"
  "findF SELECTORS_temperature [el] page = [] \<Longrightarrow>
     DayRoundWeather.tempHigh (rowOf page el) = None \<and>
     DayRoundWeather.tempLow (rowOf page el) = None"
  by (simp_all add: fetchWeather_high_low rowOf_high_low nodesF_def normalizeTemperature_def)

lemma fetchWeather_details:
  "currentFeltTemp (today (fst (fetchWeather page))) =
     fst (getTemp SELECTORS_temperature (Some (Doc, selectF SELECTORS_todayDetails page))
            (initial page))"
  "currentUvIndex (today (fst (fetchWeather page))) =
     fst (getText SELECTORS_uvIndex (Some (Doc, selectF SELECTORS_todayDetails page))
            (initial page))"
  "currentWind (today (fst (fetchWeather page))) =
     fst (getText SELECTORS_wind (Some (Doc, selectF SELECTORS_todayDetails page))
            (initial page))"
  "currentHumidity (today (fst (fetchWeather page))) =
     fst (getPercentage SELECTORS_percentage (Some (Doc, selectF SELECTORS_todayDetails page))
            (initial page))"
  by (simp_all add: fetchWeather_def Let_def split_def select_root_def
        getTemp_fst getText_fst getPercentage_fst doc_forms)

lemma no_details:
  assumes "selectF SELECTORS_todayDetails page = []"
  shows "DayWeather.tempHigh (today (fst (fetchWeather page))) = None \<and>
     DayWeather.tempLow (today (fst (fetchWeather page))) = None \<and>
     currentFeltTemp (today (fst (fetchWeather page))) = None \<and>
     currentUvIndex (today (fst (fetchWeather page))) = None \<and>
     currentWind (today (fst (fetchWeather page))) = None \<and>
     currentHumidity (today (fst (fetchWeather page))) = None \<and>
     currentWarnings page =
       missed SELECTORS_currentTemp (selectF SELECTORS_currentTemp page) @
       [SELECTORS_temperature] @
       missed SELECTORS_currentCondition (selectF SELECTORS_currentCondition page) @
       missed SELECTORS_time (selectF SELECTORS_time page) @
       [SELECTORS_uvIndex, SELECTORS_wind, SELECTORS_percentage]"
  using assms high_low_none(1)[of page]
  by (simp add: fetchWeather_details getTemp_fst getText_fst getPercentage_fst doc_forms
        normalizeTemperature_def currentWarnings_def missed_def)

lemma no_segment:
  assumes "selectF (segmentSelector n) page = []"
  shows "segmentOf page n = \<lparr>temp = None, condition = None, rain = None, active = False\<rparr> \<and>
     segmentWarnings page n = [SELECTORS_temperature, SELECTORS_condition, SELECTORS_chanceOfRain]"
  using assms
  by (simp add: segmentOf_def getSegmentData_def getTemp_def getText_def getPercentage_def Let_def
        select_root_def doc_forms warn_def normalizeTemperature_def segmentWarnings_def missed_def)

text \<open>
  C7, as the code has it. A leaf lookup through \<^verbatim>\<open>getText\<close>, \<^verbatim>\<open>getTemp\<close> or
  \<^verbatim>\<open>getPercentage\<close> whose selector matches no node returns \<^verbatim>\<open>null\<close> and writes
  exactly one warning, which names the selector; nothing else changes and nothing is
  raised. A lookup that matches writes no warning. Every warning of a run of
  \<^verbatim>\<open>fetchWeather\<close> names a selector of a leaf lookup, and the warnings of a run are
  exactly those of its leaf lookups, one for each that found nothing, in the order of
  the calls: seven lookups of the current conditions, three in each of the four
  segments, three in each row of the outlook. So the lookups of containers and
  collections and the first/last reads of the high and the low write none. They fail
  silently: with no temperature node below the details module (or below a row) the high
  and the low (of the row) are \<^verbatim>\<open>null\<close>; with no details module the fields read inside it
  are \<^verbatim>\<open>null\<close> and only their own four warnings are written; a segment that is not
  there gives three \<^verbatim>\<open>null\<close> fields, the flag false, and its three warnings; with no
  row of the daily table the outlook is the empty list and no warning is written for it.
\<close>

theorem leaf_lookup_miss:
  "(snd (query sel ctx st) = [] \<longrightarrow>
      getText sel ctx st = (None, st\<lparr>diags := diags st @ [sel]\<rparr>) \<and>
      getTemp sel ctx st = (None, st\<lparr>diags := diags st @ [sel]\<rparr>) \<and>
      getPercentage sel ctx st = (None, st\<lparr>diags := diags st @ [sel]\<rparr>)) \<and>
   (snd (query sel ctx st) \<noteq> [] \<longrightarrow>
      diags (snd (getText sel ctx st)) = diags st \<and>
      diags (snd (getTemp sel ctx st)) = diags st \<and>
      diags (snd (getPercentage sel ctx st)) = diags st) \<and>
   set (diags (snd (fetchWeather page))) \<subseteq> leafSelectors \<and>
   diags (snd (fetchWeather page)) =
     currentWarnings page @ concat (map (segmentWarnings page) [1, 2, 3, 4]) @
     concat (map (rowWarnings page) (drop 1 (selectF SELECTORS_followingDays page))) \<and>
   diags (snd (getSegmentData n st)) = diags st @ segmentWarnings (document st) n \<and>
   diags (snd (dayRow Doc el st)) = diags st @ rowWarnings (document st) el \<and>
   next (fst (fetchWeather page)) =
     map (rowOf page) (drop 1 (selectF SELECTORS_followingDays page)) \<and>
   (findF SELECTORS_temperature (selectF SELECTORS_todayDetails page) page = [] \<longrightarrow>
      DayWeather.tempHigh (today (fst (fetchWeather page))) = None \<and>
      DayWeather.tempLow (today (fst (fetchWeather page))) = None) \<and>
   (findF SELECTORS_temperature [el] page = [] \<longrightarrow>
      DayRoundWeather.tempHigh (rowOf page el) = None \<and>
      DayRoundWeather.tempLow (rowOf page el) = None) \<and>
   (selectF SELECTORS_todayDetails page = [] \<longrightarrow>
      DayWeather.tempHigh (today (fst (fetchWeather page))) = None \<and>
      DayWeather.tempLow (today (fst (fetchWeather page))) = None \<and>
      currentFeltTemp (today (fst (fetchWeather page))) = None \<and>
      currentUvIndex (today (fst (fetchWeather page))) = None \<and>
      currentWind (today (fst (fetchWeather page))) = None \<and>
      currentHumidity (today (fst (fetchWeather page))) = None \<and>
      currentWarnings page =
        missed SELECTORS_currentTemp (selectF SELECTORS_currentTemp page) @
        [SELECTORS_temperature] @
        missed SELECTORS_currentCondition (selectF SELECTORS_currentCondition page) @
        missed SELECTORS_time (selectF SELECTORS_time page) @
        [SELECTORS_uvIndex, SELECTORS_wind, SELECTORS_percentage]) \<and>
   (selectF (segmentSelector n) page = [] \<longrightarrow>
      segmentOf page n = \<lparr>temp = None, condition = None, rain = None, active = False\<rparr> \<and>
      segmentWarnings page n =
        [SELECTORS_temperature, SELECTORS_condition, SELECTORS_chanceOfRain]) \<and>
   (selectF SELECTORS_followingDays page = [] \<longrightarrow>
      next (fst (fetchWeather page)) = [] \<and>
      diags (snd (fetchWeather page)) =
        currentWarnings page @ concat (map (segmentWarnings page) [1, 2, 3, 4]))"
proof -
  have a: "(snd (query sel ctx st) = [] \<longrightarrow>
      getText sel ctx st = (None, st\<lparr>diags := diags st @ [sel]\<rparr>) \<and>
      getTemp sel ctx st = (None, st\<lparr>diags := diags st @ [sel]\<rparr>) \<and>
      getPercentage sel ctx st = (None, st\<lparr>diags := diags st @ [sel]\<rparr>)) \<and>
   (snd (query sel ctx st) \<noteq> [] \<longrightarrow>
      diags (snd (getText sel ctx st)) = diags st \<and>
      diags (snd (getTemp sel ctx st)) = diags st \<and>
      diags (snd (getPercentage sel ctx st)) = diags st) \<and>
   set (diags (snd (fetchWeather page))) \<subseteq> leafSelectors"
    by (simp add: getText_def getTemp_def getPercentage_eq warn_def Let_def normalizeTemperature_def
        fetchWeather_only_leaf_warnings)
  have b: "selectF SELECTORS_followingDays page = [] \<longrightarrow>
      next (fst (fetchWeather page)) = [] \<and>
      diags (snd (fetchWeather page)) =
        currentWarnings page @ concat (map (segmentWarnings page) [1, 2, 3, 4])"
    by (simp add: fetchWeather_next diags_fetchWeather)
  from a diags_fetchWeather[of page] diags_getSegmentData[of n st] diags_dayRow[of el st]
    fetchWeather_next[of page] high_low_none(1)[of page] high_low_none(2)[of el page]
    no_details[of page] no_segment[of n page] b
  show ?thesis by blast
qed

lemma emptyPage_warnings:
  "selectF SELECTORS_currentTemp emptyPage = []"
  "selectF SELECTORS_currentCondition emptyPage = []"
  "selectF SELECTORS_time emptyPage = []"
  "selectF SELECTORS_today emptyPage = []"
  by code_simp+

lemma fiveRowsPage_rows:
  "selectF SELECTORS_followingDays fiveRowsPage =
     [ [0, 1, 0, 0, 0], [0, 1, 0, 0, 1], [0, 1, 0, 0, 2], [0, 1, 0, 0, 3], [0, 1, 0, 0, 4]]"
  "findF SELECTORS_temperature [ [0, Suc 0, 0, 0, Suc 0]] fiveRowsPage = []"
  "rowWarnings fiveRowsPage [0, Suc 0, 0, 0, Suc 0] = [SELECTORS_condition, SELECTORS_chanceOfRain]"
  by code_simp+

text \<open>
  The theorem on the page with an empty body, where every lookup misses; on the page
  with a rain-chance node; and on the second row of a table whose rows hold a date and
  nothing else.
\<close>

theorem leaf_lookup_miss_witness:
  "getText SELECTORS_wind None (initial emptyPage) =
     (None, (initial emptyPage)\<lparr>diags := [SELECTORS_wind]\<rparr>) \<and>
   diags (snd (getPercentage SELECTORS_chanceOfRain None (initial leafPage))) = [] \<and>
   diags (snd (fetchWeather emptyPage)) =
     [SELECTORS_currentTemp, SELECTORS_temperature, SELECTORS_currentCondition, SELECTORS_time,
      SELECTORS_uvIndex, SELECTORS_wind, SELECTORS_percentage,
      SELECTORS_temperature, SELECTORS_condition, SELECTORS_chanceOfRain,
      SELECTORS_temperature, SELECTORS_condition, SELECTORS_chanceOfRain,
      SELECTORS_temperature, SELECTORS_condition, SELECTORS_chanceOfRain,
      SELECTORS_temperature, SELECTORS_condition, SELECTORS_chanceOfRain] \<and>
   DayWeather.tempHigh (today (fst (fetchWeather emptyPage))) = None \<and>
   DayWeather.tempLow (today (fst (fetchWeather emptyPage))) = None \<and>
   next (fst (fetchWeather emptyPage)) = [] \<and>
   DayRoundWeather.tempHigh (rowOf fiveRowsPage [0, 1, 0, 0, 1]) = None \<and>
   DayRoundWeather.tempLow (rowOf fiveRowsPage [0, 1, 0, 0, 1]) = None \<and>
   diags (snd (dayRow Doc [0, 1, 0, 0, 1] (initial fiveRowsPage))) =
     [SELECTORS_condition, SELECTORS_chanceOfRain]"
proof -
  have sg: "selectF (segmentSelector n) emptyPage = []" for n
    by (rule no_today_no_segment) (simp add: emptyPage_warnings)
  have w1: "getText SELECTORS_wind None (initial emptyPage) =
     (None, (initial emptyPage)\<lparr>diags := [SELECTORS_wind]\<rparr>)"
    using leaf_lookup_miss [where sel = SELECTORS_wind and ctx = None and st = "initial emptyPage"]
    by (simp add: emptyPage_no_match)
  have w2: "diags (snd (getPercentage SELECTORS_chanceOfRain None (initial leafPage))) = []"
    using leaf_lookup_miss
            [where sel = SELECTORS_chanceOfRain and ctx = None and st = "initial leafPage"]
    by (simp add: leafPage_match)
  have w3: "diags (snd (fetchWeather emptyPage)) =
     [SELECTORS_currentTemp, SELECTORS_temperature, SELECTORS_currentCondition, SELECTORS_time,
      SELECTORS_uvIndex, SELECTORS_wind, SELECTORS_percentage,
      SELECTORS_temperature, SELECTORS_condition, SELECTORS_chanceOfRain,
      SELECTORS_temperature, SELECTORS_condition, SELECTORS_chanceOfRain,
      SELECTORS_temperature, SELECTORS_condition, SELECTORS_chanceOfRain,
      SELECTORS_temperature, SELECTORS_condition, SELECTORS_chanceOfRain] \<and>
   DayWeather.tempHigh (today (fst (fetchWeather emptyPage))) = None \<and>
   DayWeather.tempLow (today (fst (fetchWeather emptyPage))) = None \<and>
   next (fst (fetchWeather emptyPage)) = []"
    using leaf_lookup_miss [where page = emptyPage and n = 1]
      leaf_lookup_miss [where page = emptyPage and n = 2]
      leaf_lookup_miss [where page = emptyPage and n = 3]
      leaf_lookup_miss [where page = emptyPage and n = 4]
    by (simp add: emptyPage_no_match emptyPage_warnings sg missed_def)
  have w4: "DayRoundWeather.tempHigh (rowOf fiveRowsPage [0, 1, 0, 0, 1]) = None \<and>
   DayRoundWeather.tempLow (rowOf fiveRowsPage [0, 1, 0, 0, 1]) = None \<and>
   diags (snd (dayRow Doc [0, 1, 0, 0, 1] (initial fiveRowsPage))) =
     [SELECTORS_condition, SELECTORS_chanceOfRain]"
    using leaf_lookup_miss
            [where page = fiveRowsPage and el = "[0, 1, 0, 0, 1]" and st = "initial fiveRowsPage"]
    by (simp add: fiveRowsPage_rows)
  from w1 w2 w3 w4 show ?thesis by simp
qed

text \<open>
  C7 as the specification states it fails: on the page with an empty body the lookups of
  the following-days collection and of the details container match no node, the outlook
  is empty, and no warning names either selector.
\<close>

theorem container_miss_silent_counterexample:
  "snd (select_root SELECTORS_followingDays (initial emptyPage)) = [] \<and>
   snd (select_root SELECTORS_todayDetails (initial emptyPage)) = [] \<and>
   next (fst (fetchWeather emptyPage)) = [] \<and>
   SELECTORS_followingDays \<notin> set (diags (snd (fetchWeather emptyPage))) \<and>
   SELECTORS_todayDetails \<notin> set (diags (snd (fetchWeather emptyPage)))"
  using fetchWeather_only_leaf_warnings [of emptyPage] containers_not_leaf
  by (auto simp: select_root_def fetchWeather_next emptyPage_no_match)

section \<open>High and low\<close>

text \<open>
  C9. The temperature nodes below the details container are found in document order;
  the high is read from the first of them and the low from the last
  (\<^verbatim>\<open>null\<close> when there is none). Every outlook entry is the row read from one list
  item, and its high and low are read in the same way from the first and the last
  temperature node below that item.
\<close>

theorem high_low_first_last:
  "(let ts = findF SELECTORS_temperature (selectF SELECTORS_todayDetails page) page;
        ns = nodesF ts page
    in sorted_wrt docBefore ts \<and> length ns = length ts \<and>
       DayWeather.tempHigh (today (fst (fetchWeather page))) =
         (if ns = [] then None else normalizeTemperature (textContent (hd ns))) \<and>
       DayWeather.tempLow (today (fst (fetchWeather page))) =
         (if ns = [] then None else normalizeTemperature (textContent (last ns)))) \<and>
   next (fst (fetchWeather page)) =
     map (rowOf page) (drop 1 (selectF SELECTORS_followingDays page)) \<and>
   (\<forall>el. let ts = findF SELECTORS_temperature [el] page;
            ns = nodesF ts page
        in sorted_wrt docBefore ts \<and> length ns = length ts \<and>
           DayRoundWeather.tempHigh (rowOf page el) =
             (if ns = [] then None else normalizeTemperature (textContent (hd ns))) \<and>
           DayRoundWeather.tempLow (rowOf page el) =
             (if ns = [] then None else normalizeTemperature (textContent (last ns))))"
proof -
  have len: "length (nodesF (findF s c page) page) = length (findF s c page)" for s c
    using elemPaths_nodesF[OF elemPaths_findF] by blast
  have a: "let ts = findF SELECTORS_temperature (selectF SELECTORS_todayDetails page) page;
               ns = nodesF ts page
           in sorted_wrt docBefore ts \<and> length ns = length ts \<and>
              DayWeather.tempHigh (today (fst (fetchWeather page))) =
                (if ns = [] then None else normalizeTemperature (textContent (hd ns))) \<and>
              DayWeather.tempLow (today (fst (fetchWeather page))) =
                (if ns = [] then None else normalizeTemperature (textContent (last ns)))"
    unfolding Let_def fetchWeather_high_low
    using first_last_text[OF elemPaths_findF, of SELECTORS_temperature
            "selectF SELECTORS_todayDetails page" page]
    by (simp add: findF_sorted len)
  have b: "let ts = findF SELECTORS_temperature [el] page;
               ns = nodesF ts page
           in sorted_wrt docBefore ts \<and> length ns = length ts \<and>
              DayRoundWeather.tempHigh (rowOf page el) =
                (if ns = [] then None else normalizeTemperature (textContent (hd ns))) \<and>
              DayRoundWeather.tempLow (rowOf page el) =
                (if ns = [] then None else normalizeTemperature (textContent (last ns)))" for el
    unfolding Let_def rowOf_high_low
    using first_last_text[OF elemPaths_findF, of SELECTORS_temperature "[el]" page]
    by (simp add: findF_sorted len)
  from a b fetchWeather_next show ?thesis by blast
qed

lemma detailsPage_temps:
  "nodesF (findF SELECTORS_temperature (selectF SELECTORS_todayDetails detailsPage) detailsPage)
          detailsPage =
     [temperatureValue ''74'', temperatureValue ''85'', temperatureValue ''61'']"
  by code_simp

lemma detailsPage_rows:
  "selectF SELECTORS_followingDays detailsPage =
     [ [0, Suc 0, Suc 0, 0, 0], [0, Suc 0, Suc 0, 0, Suc 0] ]"
  by code_simp

lemma detailsPage_row_temps:
  "nodesF (findF SELECTORS_temperature [ [0, Suc 0, Suc 0, 0, Suc 0] ] detailsPage) detailsPage =
     [temperatureValue ''88'', temperatureValue ''64'']"
  by code_simp

lemma temperature_values:
  "normalizeTemperature (textContent (temperatureValue ''74'')) = Some (Num 74)"
  "normalizeTemperature (textContent (temperatureValue ''61'')) = Some (Num 61)"
  "normalizeTemperature (textContent (temperatureValue ''88'')) = Some (Num 88)"
  "normalizeTemperature (textContent (temperatureValue ''64'')) = Some (Num 64)"
  by (simp_all add: temperatureValue_def normalizeTemperature_def str_def degree_def
        parseInt10_def isWhiteSpace_def isDigit_def digitsValue_def toNumber_small)

text \<open>
  The theorem on a page whose details module holds 74, 85 and 61 and whose second row
  holds 88 and 64.
\<close>

theorem high_low_first_last_witness:
  "DayWeather.tempHigh (today (fst (fetchWeather detailsPage))) = Some (Num 74) \<and>
   DayWeather.tempLow (today (fst (fetchWeather detailsPage))) = Some (Num 61) \<and>
   map DayRoundWeather.tempHigh (next (fst (fetchWeather detailsPage))) = [Some (Num 88)] \<and>
   map DayRoundWeather.tempLow (next (fst (fetchWeather detailsPage))) = [Some (Num 64)]"
proof -
  from high_low_first_last [of detailsPage]
  have a: "let ts = findF SELECTORS_temperature (selectF SELECTORS_todayDetails detailsPage) detailsPage;
               ns = nodesF ts detailsPage
           in DayWeather.tempHigh (today (fst (fetchWeather detailsPage))) =
                (if ns = [] then None else normalizeTemperature (textContent (hd ns))) \<and>
              DayWeather.tempLow (today (fst (fetchWeather detailsPage))) =
                (if ns = [] then None else normalizeTemperature (textContent (last ns)))"
    and n: "next (fst (fetchWeather detailsPage)) =
              map (rowOf detailsPage) (drop 1 (selectF SELECTORS_followingDays detailsPage))"
    and b: "let ts = findF SELECTORS_temperature [ [0, Suc 0, Suc 0, 0, Suc 0] ] detailsPage;
               ns = nodesF ts detailsPage
           in DayRoundWeather.tempHigh (rowOf detailsPage [0, Suc 0, Suc 0, 0, Suc 0]) =
                (if ns = [] then None else normalizeTemperature (textContent (hd ns))) \<and>
              DayRoundWeather.tempLow (rowOf detailsPage [0, Suc 0, Suc 0, 0, Suc 0]) =
                (if ns = [] then None else normalizeTemperature (textContent (last ns)))"
    by (simp_all add: Let_def)
  from a have "DayWeather.tempHigh (today (fst (fetchWeather detailsPage))) = Some (Num 74) \<and>
               DayWeather.tempLow (today (fst (fetchWeather detailsPage))) = Some (Num 61)"
    by (simp add: Let_def detailsPage_temps temperature_values)
  moreover from b have "DayRoundWeather.tempHigh (rowOf detailsPage [0, Suc 0, Suc 0, 0, Suc 0]) = Some (Num 88) \<and>
               DayRoundWeather.tempLow (rowOf detailsPage [0, Suc 0, Suc 0, 0, Suc 0]) = Some (Num 64)"
    by (simp add: Let_def detailsPage_row_temps temperature_values)
  ultimately show ?thesis by (simp add: n detailsPage_rows)
qed

section \<open>Missing containers\<close>

lemma dayRow_diags_take:
  "take (length (diags st)) (diags (snd (dayRow r el st))) = diags st"
  by (simp add: dayRow_def Let_def split_def diags_getText diags_getPercentage)

lemma eachDay_diags_take:
  "take (length (diags st)) (diags (snd (eachDay r els st))) = diags st"
proof (induction els arbitrary: st)
  case Nil
  then show ?case by simp
next
  case (Cons el els)
  let ?s1 = "snd (dayRow r el st)"
  have 1: "take (length (diags st)) (diags ?s1) = diags st" by (rule dayRow_diags_take)
  have 2: "take (length (diags ?s1)) (diags (snd (eachDay r els ?s1))) = diags ?s1"
    by (rule Cons.IH)
  have "length (take (length (diags st)) (diags ?s1)) = length (diags st)"
    using 1 by simp
  then have le: "length (diags st) \<le> length (diags ?s1)"
    by simp
  have "take (length (diags st)) (diags (snd (eachDay r els ?s1))) =
        take (length (diags st)) (take (length (diags ?s1)) (diags (snd (eachDay r els ?s1))))"
    using le by (simp add: min_def)
  also have "\<dots> = diags st" unfolding 2 by (rule 1)
  finally show ?case by (simp add: split_def Let_def)
qed

lemma four_segments_diags:
  assumes "selectF SELECTORS_today (document st) = []"
  shows "diags (snd (getSegmentData 4 (snd (getSegmentData 3 (snd (getSegmentData 2
                 (snd (getSegmentData 1 st))))))))
         = diags st @ concat (replicate 4
             [SELECTORS_temperature, SELECTORS_condition, SELECTORS_chanceOfRain])"
  using assms by (simp add: getSegmentData_no_today numeral_eq_Suc)

lemma ex_pre_post:
  "take (length (diags s)) D = diags s \<Longrightarrow> diags s = pre @ X \<Longrightarrow> \<exists>pre post. D = pre @ X @ post"
  by (metis append.assoc append_take_drop_id)

lemma fetchWeather_segment_warnings:
  assumes "selectF SELECTORS_today page = []"
  shows "\<exists>pre post. diags (snd (fetchWeather page)) =
           pre @ concat (replicate 4
             [SELECTORS_temperature, SELECTORS_condition, SELECTORS_chanceOfRain]) @ post"
  unfolding fetchWeather_def Let_def split_def snd_conv
  by (rule ex_pre_post[OF eachDay_diags_take four_segments_diags]) (simp add: assms)

lemma segmentOf_no_today:
  assumes "selectF SELECTORS_today page = []"
  shows "segmentOf page n = \<lparr>temp = None, condition = None, rain = None, active = False\<rparr>"
  using assms by (simp add: segmentOf_def getSegmentData_no_today)

text \<open>
  C8, as the code has it. When no element matches the selector of the today card,
  \<^verbatim>\<open>fetchWeather\<close> does not fail: the twelve segment fields and the stage are
  \<^verbatim>\<open>null\<close>, every read of a segment writes the three warnings of its three missed
  fields, and the run writes these twelve warnings in a row. (The high, the low and
  the current conditions are read elsewhere in the page.) When no element matches the
  selector of the following days, the outlook is the empty list.
\<close>

theorem missing_containers:
  "(selectF SELECTORS_today page = [] \<longrightarrow>
      morningTemperature (today (fst (fetchWeather page))) = None \<and>
      morningCondition (today (fst (fetchWeather page))) = None \<and>
      morningChanceOfRain (today (fst (fetchWeather page))) = None \<and>
      afternoonTemperature (today (fst (fetchWeather page))) = None \<and>
      afternoonCondition (today (fst (fetchWeather page))) = None \<and>
      afternoonChanceOfRain (today (fst (fetchWeather page))) = None \<and>
      eveningTemperature (today (fst (fetchWeather page))) = None \<and>
      eveningCondition (today (fst (fetchWeather page))) = None \<and>
      eveningChanceOfRain (today (fst (fetchWeather page))) = None \<and>
      overnightTemperature (today (fst (fetchWeather page))) = None \<and>
      overnightCondition (today (fst (fetchWeather page))) = None \<and>
      overnightChanceOfRain (today (fst (fetchWeather page))) = None \<and>
      currentDayStage (today (fst (fetchWeather page))) = None \<and>
      (\<forall>n st. document st = page \<longrightarrow>
         getSegmentData n st =
           (\<lparr>temp = None, condition = None, rain = None, active = False\<rparr>,
            st\<lparr>diags := diags st @
                 [SELECTORS_temperature, SELECTORS_condition, SELECTORS_chanceOfRain]\<rparr>)) \<and>
      (\<exists>pre post. diags (snd (fetchWeather page)) =
         pre @ concat (replicate 4
                [SELECTORS_temperature, SELECTORS_condition, SELECTORS_chanceOfRain]) @ post)) \<and>
   (selectF SELECTORS_followingDays page = [] \<longrightarrow> next (fst (fetchWeather page)) = [])"
proof -
  have a: "selectF SELECTORS_followingDays page = [] \<longrightarrow> next (fst (fetchWeather page)) = []"
    by (simp add: fetchWeather_next)
  have b: "morningTemperature (today (fst (fetchWeather page))) = None \<and>
      morningCondition (today (fst (fetchWeather page))) = None \<and>
      morningChanceOfRain (today (fst (fetchWeather page))) = None \<and>
      afternoonTemperature (today (fst (fetchWeather page))) = None \<and>
      afternoonCondition (today (fst (fetchWeather page))) = None \<and>
      afternoonChanceOfRain (today (fst (fetchWeather page))) = None \<and>
      eveningTemperature (today (fst (fetchWeather page))) = None \<and>
      eveningCondition (today (fst (fetchWeather page))) = None \<and>
      eveningChanceOfRain (today (fst (fetchWeather page))) = None \<and>
      overnightTemperature (today (fst (fetchWeather page))) = None \<and>
      overnightCondition (today (fst (fetchWeather page))) = None \<and>
      overnightChanceOfRain (today (fst (fetchWeather page))) = None \<and>
      currentDayStage (today (fst (fetchWeather page))) = None"
    if "selectF SELECTORS_today page = []"
    by (simp add: fetchWeather_segments fetchWeather_stage segmentOf_no_today[OF that] dayStage_def)
  have c: "\<forall>n st. document st = page \<longrightarrow>
         getSegmentData n st =
           (\<lparr>temp = None, condition = None, rain = None, active = False\<rparr>,
            st\<lparr>diags := diags st @
                 [SELECTORS_temperature, SELECTORS_condition, SELECTORS_chanceOfRain]\<rparr>)"
    if "selectF SELECTORS_today page = []"
    using that by (simp add: getSegmentData_no_today)
  from a b c fetchWeather_segment_warnings show ?thesis by blast
qed

lemma detailsPage_no_today: "selectF SELECTORS_today detailsPage = []"
  by code_simp

lemma twoActive_no_rows: "selectF SELECTORS_followingDays twoActivePage = []"
  by code_simp

text \<open>
  The theorem on a page without today card, and on a page without daily table.
\<close>

theorem missing_containers_witness:
  "morningTemperature (today (fst (fetchWeather detailsPage))) = None \<and>
   overnightChanceOfRain (today (fst (fetchWeather detailsPage))) = None \<and>
   currentDayStage (today (fst (fetchWeather detailsPage))) = None \<and>
   next (fst (fetchWeather twoActivePage)) = []"
  using missing_containers [of detailsPage] missing_containers [of twoActivePage]
    detailsPage_no_today twoActive_no_rows
  by simp

text \<open>
  C8 as the specification states it fails: on a page without today card the high and
  the low are not \<^verbatim>\<open>null\<close>.
\<close>

theorem missing_today_counterexample:
  "selectF SELECTORS_today detailsPage = [] \<and>
   DayWeather.tempHigh (today (fst (fetchWeather detailsPage))) = Some (Num 74) \<and>
   DayWeather.tempLow (today (fst (fetchWeather detailsPage))) = Some (Num 61)"
proof -
  have len: "nodesF (findF SELECTORS_temperature (selectF SELECTORS_todayDetails detailsPage)
               detailsPage) detailsPage \<noteq> []"
    by (simp add: detailsPage_temps)
  show ?thesis
    using first_last_text[OF elemPaths_findF, of SELECTORS_temperature
            "selectF SELECTORS_todayDetails detailsPage" detailsPage]
    by (simp add: detailsPage_no_today fetchWeather_high_low detailsPage_temps temperature_values
          Let_def)
qed

end
